theory Spec2Isabelle
  imports Complex_Main
begin

section \<open>Data model\<close>

text \<open>
  The storefront keeps its data in six relational tables (\<^verbatim>\<open>supabase/seed.sql\<close>) and
  talks to them through a query client. Row identifiers are UUIDs; only their equality
  and the freshness of generated ones matter, so they are natural numbers here and the
  store draws new ones from a counter. The store keeps money amounts as decimals with
  two fractional digits (\<^verbatim>\<open>DECIMAL(10,2)\<close>) and quantities as 32-bit integers
  (\<^verbatim>\<open>INTEGER\<close>); the application computes with JavaScript numbers, which are IEEE
  doubles. Timestamp columns, which the store fills and refreshes by itself, are left
  out. The auth context is not part of the sources at hand: the signed-in user, the
  profile and the loading flag it provides are inputs of the operations below.
\<close>

type_synonym uuid = nat

subsection \<open>JavaScript numbers\<close>

text \<open>
  A JavaScript number is a double: a finite value, given here by the rational it
  denotes, one of the two infinities, or not-a-number. The sign of zero is not
  modelled; it shows in no sum, comparison or stored value below.
\<close>

datatype number = Fin rat | PInf | NInf | NaN

definition pow2 :: "int \<Rightarrow> rat" where
  "pow2 e = (if 0 \<le> e then 2 ^ nat e else 1 / 2 ^ nat (- e))"

function bit_length :: "int \<Rightarrow> int" where
  "bit_length n = (if n \<le> 0 then 0 else 1 + bit_length (n div 2))"
  by pat_completeness auto

termination
  by (relation "measure nat") auto

declare bit_length.simps [simp del]

text \<open>The binary exponent of a positive rational: \<open>2 ^ e \<le> a < 2 ^ (e + 1)\<close>.\<close>

definition floor_log2 :: "rat \<Rightarrow> int" where
  "floor_log2 a =
     (if 1 \<le> a then bit_length \<lfloor>a\<rfloor> - 1
      else - bit_length (\<lceil>1 / a\<rceil> - 1))"

definition round_half_even :: "rat \<Rightarrow> int" where
  "round_half_even m =
     (let f = \<lfloor>m\<rfloor>; d = m - of_int f
      in if d < 1 / 2 then f else if 1 / 2 < d then f + 1
         else if even f then f else f + 1)"

text \<open>
  Rounding to the nearest double, ties to even: 53 significant bits, exponents from
  -1022 (below that the spacing stays that of the subnormal numbers) to 1023 (beyond
  that the result is an infinity).
\<close>

definition round_double :: "rat \<Rightarrow> number" where
  "round_double x =
     (if x = 0 then Fin 0
      else
        (let a = \<bar>x\<bar>;
             e = max (floor_log2 a) (- 1022);
             n = round_half_even (a / pow2 (e - 52))
         in if 1024 \<le> e \<or> (e = 1023 \<and> 9007199254740992 \<le> n)
            then (if 0 < x then PInf else NInf)
            else Fin (if 0 < x then of_int n * pow2 (e - 52)
                      else - (of_int n * pow2 (e - 52)))))"

text \<open>
  A decimal literal or a number read from a response is the double nearest to it; an
  integer quantity becomes a number in the same way.
\<close>

definition to_number :: "rat \<Rightarrow> number" where
  "to_number r = round_double r"

definition js_int :: "int \<Rightarrow> number" where
  "js_int i = round_double (of_int i)"

fun js_add :: "number \<Rightarrow> number \<Rightarrow> number" where
  "js_add NaN y = NaN"
| "js_add x NaN = NaN"
| "js_add PInf NInf = NaN"
| "js_add NInf PInf = NaN"
| "js_add PInf y = PInf"
| "js_add x PInf = PInf"
| "js_add NInf y = NInf"
| "js_add x NInf = NInf"
| "js_add (Fin a) (Fin b) = round_double (a + b)"

definition inf_times :: "bool \<Rightarrow> rat \<Rightarrow> number" where
  "inf_times positive b =
     (if b = 0 then NaN else if (0 < b) = positive then PInf else NInf)"

fun js_mul :: "number \<Rightarrow> number \<Rightarrow> number" where
  "js_mul NaN y = NaN"
| "js_mul x NaN = NaN"
| "js_mul PInf PInf = PInf"
| "js_mul PInf NInf = NInf"
| "js_mul NInf PInf = NInf"
| "js_mul NInf NInf = PInf"
| "js_mul PInf (Fin b) = inf_times True b"
| "js_mul NInf (Fin b) = inf_times False b"
| "js_mul (Fin a) PInf = inf_times True a"
| "js_mul (Fin a) NInf = inf_times False a"
| "js_mul (Fin a) (Fin b) = round_double (a * b)"

subsection \<open>Column types\<close>

datatype store_error =
  RowLevelSecurity | CheckViolation | ForeignKeyViolation | UniqueViolation
  | NumericOverflow | NotNullViolation

definition int4 :: "int \<Rightarrow> bool" where
  "int4 i = (- 2147483648 \<le> i \<and> i \<le> 2147483647)"

definition round_half_away :: "rat \<Rightarrow> int" where
  "round_half_away m = (if 0 \<le> m then \<lfloor>m + 1 / 2\<rfloor> else - \<lfloor>- m + 1 / 2\<rfloor>)"

text \<open>
  A request carries a finite number as the shortest decimal that reads back as the same
  double (\<^verbatim>\<open>JSON.stringify\<close>), and a \<^verbatim>\<open>DECIMAL(10,2)\<close> column rounds that decimal
  to two fractional digits. For this rounding the decimal can be told from \<open>x\<close>: two
  decimals of at most fifteen digits never read back as the same double, so when the
  decimal with three fractional digits nearest to \<open>x\<close> reads back as \<open>x\<close>, it is
  the one sent (below the column's limit of eight integer digits; beyond it the column
  refuses either); otherwise no decimal with three fractional digits, hence no tie of
  the rounding, lies between \<open>x\<close> and the decimal sent, and both round alike.
\<close>

definition json_decimal :: "rat \<Rightarrow> rat" where
  "json_decimal x =
     (let c = of_int (round_half_away (x * 1000)) / 1000
      in if round_double c = Fin x then c else x)"

text \<open>
  A \<^verbatim>\<open>DECIMAL(10,2) NOT NULL\<close> column: the value is rounded to two fractional digits,
  halves away from zero, and refused when it then needs more than eight integer digits.
  An infinity or not-a-number is sent as \<^verbatim>\<open>null\<close>.
\<close>

definition numeric_10_2 :: "number \<Rightarrow> store_error + rat" where
  "numeric_10_2 n =
     (case n of
        Fin x \<Rightarrow>
          (let c = of_int (round_half_away (json_decimal x * 100)) / 100
           in if 100000000 \<le> \<bar>c\<bar> then Inl NumericOverflow else Inr c)
      | PInf \<Rightarrow> Inl NotNullViolation
      | NInf \<Rightarrow> Inl NotNullViolation
      | NaN \<Rightarrow> Inl NotNullViolation)"

subsection \<open>Tables\<close>

record product =
  p_id :: uuid
  p_name :: string
  p_description :: string
  p_price :: rat
  p_image_url :: string
  p_category :: string
  p_is_featured :: bool

record cart_row =
  c_id :: uuid
  c_user_id :: uuid
  c_product_id :: uuid
  c_quantity :: int

record order_row =
  o_id :: uuid
  o_user_id :: uuid
  o_total_amount :: rat
  o_status :: string

record order_item_row =
  oi_id :: uuid
  oi_order_id :: uuid
  oi_product_id :: uuid
  oi_quantity :: int
  oi_price :: rat

record profile =
  pr_id :: uuid
  pr_email :: string
  pr_full_name :: string
  pr_role :: string

record store =
  products :: "product list"
  cart_items :: "cart_row list"
  orders :: "order_row list"
  order_items :: "order_item_row list"
  profiles :: "profile list"
  next_id :: uuid

text \<open>The in-memory cart line of \<^verbatim>\<open>CartContext\<close> (interface \<^verbatim>\<open>CartItem\<close>).\<close>

record CartItem =
  ci_id :: uuid
  ci_product_id :: uuid
  ci_name :: string
  ci_price :: number
  ci_quantity :: int
  ci_image_url :: string

text \<open>
  The state a cart operation works on: the store, and the \<^verbatim>\<open>cartItems\<close> snapshot held
  by the cart provider.
\<close>

record world =
  db :: store
  cartItems :: "CartItem list"

text \<open>What a handler shows to the user (\<^verbatim>\<open>toast.error\<close>, \<^verbatim>\<open>toast.success\<close>).\<close>

datatype toast =
  ToastError string
  | ToastStoreError store_error
  | ToastSuccess string

section \<open>The store: tables, constraints and row-level policies\<close>

text \<open>
  The statements the application sends, against the schema of \<^verbatim>\<open>supabase/seed.sql\<close>.
  The store rejects a statement exactly when a value does not fit its column, when a
  constraint (\<^verbatim>\<open>CHECK\<close>, \<^verbatim>\<open>UNIQUE\<close>, \<^verbatim>\<open>REFERENCES\<close>, \<^verbatim>\<open>NOT NULL\<close>) is violated, or
  when the \<^verbatim>\<open>WITH CHECK\<close> policy of an insert refuses the row. A row that a
  \<^verbatim>\<open>USING\<close> policy hides is silently skipped by select, update and delete, which is
  no error; an update assigns, and so checks, its values on the rows it reaches. The
  caller's identity \<open>uid\<close> is what \<^verbatim>\<open>auth.uid()\<close> returns; the references to
  \<^verbatim>\<open>auth.users\<close> are the auth provider's concern. Transport failures are outside the
  model. A filter argument \<open>flt\<close> stands for the chain of \<^verbatim>\<open>.eq(column, value)\<close>
  calls of a query.
\<close>

text \<open>\<^verbatim>\<open>public.is_admin()\<close>: the caller has a profile row with role admin.\<close>

definition is_admin :: "store \<Rightarrow> uuid option \<Rightarrow> bool" where
  "is_admin s uid =
     (case uid of
        None \<Rightarrow> False
      | Some u \<Rightarrow> list_ex (\<lambda>p. pr_id p = u \<and> pr_role p = ''admin'') (profiles s))"

text \<open>The \<^verbatim>\<open>CHECK\<close> constraint on \<^verbatim>\<open>orders.status\<close>.\<close>

definition valid_status :: "string \<Rightarrow> bool" where
  "valid_status st =
     (st = ''pending'' \<or> st = ''preparing'' \<or> st = ''ready'' \<or> st = ''delivered'')"

text \<open>
  Products are viewable by everyone. Cart rows are visible to their owner and to
  admins; they can be inserted, updated and deleted by their owner only.
\<close>

definition select_products :: "store \<Rightarrow> product list" where
  "select_products s = products s"

definition cart_visible :: "store \<Rightarrow> uuid option \<Rightarrow> cart_row \<Rightarrow> bool" where
  "cart_visible s uid r = (Some (c_user_id r) = uid \<or> is_admin s uid)"

definition cart_own :: "uuid option \<Rightarrow> cart_row \<Rightarrow> bool" where
  "cart_own uid r = (Some (c_user_id r) = uid)"

definition select_cart_items ::
  "store \<Rightarrow> uuid option \<Rightarrow> (cart_row \<Rightarrow> bool) \<Rightarrow> cart_row list" where
  "select_cart_items s uid flt =
     filter (\<lambda>r. cart_visible s uid r \<and> flt r) (cart_items s)"

text \<open>\<^verbatim>\<open>.single()\<close>: the row when exactly one row came back, no data otherwise.\<close>

definition single :: "'a list \<Rightarrow> 'a option" where
  "single rows = (case rows of [r] \<Rightarrow> Some r | _ \<Rightarrow> None)"

definition insert_cart_item ::
  "store \<Rightarrow> uuid option \<Rightarrow> uuid \<Rightarrow> uuid \<Rightarrow> int \<Rightarrow> store_error + store" where
  "insert_cart_item s uid user_id product_id quantity =
     (if \<not> int4 quantity then Inl NumericOverflow
      else if Some user_id \<noteq> uid then Inl RowLevelSecurity
      else if list_ex (\<lambda>r. c_user_id r = user_id \<and> c_product_id r = product_id)
                (cart_items s)
        then Inl UniqueViolation
      else if \<not> list_ex (\<lambda>p. p_id p = product_id) (products s)
        then Inl ForeignKeyViolation
      else Inr (s\<lparr>cart_items := cart_items s @
                     [\<lparr>c_id = next_id s, c_user_id = user_id,
                       c_product_id = product_id, c_quantity = quantity\<rparr>],
                  next_id := Suc (next_id s)\<rparr>))"

definition update_cart_quantity ::
  "store \<Rightarrow> uuid option \<Rightarrow> (cart_row \<Rightarrow> bool) \<Rightarrow> int \<Rightarrow> store_error + store" where
  "update_cart_quantity s uid flt quantity =
     (if filter (\<lambda>r. cart_own uid r \<and> flt r) (cart_items s) \<noteq> [] \<and> \<not> int4 quantity
        then Inl NumericOverflow
      else Inr (s\<lparr>cart_items :=
                   map (\<lambda>r. if cart_own uid r \<and> flt r then r\<lparr>c_quantity := quantity\<rparr>
                             else r)
                     (cart_items s)\<rparr>))"

definition delete_cart_items ::
  "store \<Rightarrow> uuid option \<Rightarrow> (cart_row \<Rightarrow> bool) \<Rightarrow> store_error + store" where
  "delete_cart_items s uid flt =
     Inr (s\<lparr>cart_items := filter (\<lambda>r. \<not> (cart_own uid r \<and> flt r)) (cart_items s)\<rparr>)"

text \<open>
  An order can be inserted by its owner, with a total that fits the column and a status
  the constraint admits; the inserted row comes back (\<^verbatim>\<open>.select().single()\<close>).
\<close>

definition insert_order ::
  "store \<Rightarrow> uuid option \<Rightarrow> uuid \<Rightarrow> number \<Rightarrow> string
     \<Rightarrow> store_error + (order_row \<times> store)" where
  "insert_order s uid user_id total_amount status =
     (case numeric_10_2 total_amount of
        Inl error \<Rightarrow> Inl error
      | Inr amount \<Rightarrow>
          if Some user_id \<noteq> uid then Inl RowLevelSecurity
          else if \<not> valid_status status then Inl CheckViolation
          else
            (let row = \<lparr>o_id = next_id s, o_user_id = user_id,
                        o_total_amount = amount, o_status = status\<rparr>
             in Inr (row, s\<lparr>orders := orders s @ [row], next_id := Suc (next_id s)\<rparr>)))"

text \<open>
  Order lines can be inserted for an order of the caller's own, and reference an order
  and a product. A bulk insert is one statement: either every row is written or none
  is. The rows arrive as (order id, product id, quantity, price) and are first brought
  to the types of their columns.
\<close>

definition order_item_columns ::
  "uuid \<times> uuid \<times> int \<times> number \<Rightarrow> store_error + (uuid \<times> uuid \<times> int \<times> rat)" where
  "order_item_columns row =
     (case row of
        (oid, pid, q, pr) \<Rightarrow>
          if \<not> int4 q then Inl NumericOverflow
          else
            (case numeric_10_2 pr of
               Inl error \<Rightarrow> Inl error
             | Inr price \<Rightarrow> Inr (oid, pid, q, price)))"

fun convert_all :: "('a \<Rightarrow> store_error + 'b) \<Rightarrow> 'a list \<Rightarrow> store_error + 'b list" where
  "convert_all f [] = Inr []"
| "convert_all f (x # xs) =
     (case f x of
        Inl error \<Rightarrow> Inl error
      | Inr y \<Rightarrow>
          (case convert_all f xs of
             Inl error \<Rightarrow> Inl error
           | Inr ys \<Rightarrow> Inr (y # ys)))"

definition order_item_allowed :: "store \<Rightarrow> uuid option \<Rightarrow> uuid \<Rightarrow> bool" where
  "order_item_allowed s uid order_id =
     list_ex (\<lambda>ord. o_id ord = order_id \<and> Some (o_user_id ord) = uid) (orders s)"

fun number_order_items ::
  "uuid \<Rightarrow> (uuid \<times> uuid \<times> int \<times> rat) list \<Rightarrow> order_item_row list" where
  "number_order_items n [] = []"
| "number_order_items n ((oid, pid, q, pr) # rows) =
     \<lparr>oi_id = n, oi_order_id = oid, oi_product_id = pid, oi_quantity = q, oi_price = pr\<rparr>
       # number_order_items (Suc n) rows"

definition insert_order_items ::
  "store \<Rightarrow> uuid option \<Rightarrow> (uuid \<times> uuid \<times> int \<times> number) list \<Rightarrow> store_error + store" where
  "insert_order_items s uid rows =
     (case convert_all order_item_columns rows of
        Inl error \<Rightarrow> Inl error
      | Inr cols \<Rightarrow>
          if \<not> list_all (\<lambda>(oid, pid, q, pr). order_item_allowed s uid oid) cols
            then Inl RowLevelSecurity
          else if \<not> list_all (\<lambda>(oid, pid, q, pr).
                        list_ex (\<lambda>ord. o_id ord = oid) (orders s) \<and>
                        list_ex (\<lambda>p. p_id p = pid) (products s)) cols
            then Inl ForeignKeyViolation
          else Inr (s\<lparr>order_items := order_items s @ number_order_items (next_id s) cols,
                      next_id := next_id s + length cols\<rparr>))"

text \<open>
  Only admins can update orders; the status constraint is checked on the rows the
  update reaches.
\<close>

definition update_order_status ::
  "store \<Rightarrow> uuid option \<Rightarrow> (order_row \<Rightarrow> bool) \<Rightarrow> string \<Rightarrow> store_error + store" where
  "update_order_status s uid flt status =
     (if filter (\<lambda>ord. is_admin s uid \<and> flt ord) (orders s) \<noteq> [] \<and> \<not> valid_status status
        then Inl CheckViolation
      else Inr (s\<lparr>orders :=
                   map (\<lambda>ord. if is_admin s uid \<and> flt ord then ord\<lparr>o_status := status\<rparr> else ord)
                     (orders s)\<rparr>))"

text \<open>
  Only admins can insert, update and delete products. The record holds the columns a
  product form writes; its price is the finite number the form holds, given by its
  value (the form sets it from \<^verbatim>\<open>parseFloat(...) || 0\<close> or from a loaded product).
\<close>

record product_fields =
  f_name :: string
  f_description :: string
  f_price :: rat
  f_image_url :: string
  f_category :: string
  f_is_featured :: bool

definition insert_product ::
  "store \<Rightarrow> uuid option \<Rightarrow> product_fields \<Rightarrow> store_error + store" where
  "insert_product s uid f =
     (case numeric_10_2 (Fin (f_price f)) of
        Inl error \<Rightarrow> Inl error
      | Inr price \<Rightarrow>
          if \<not> is_admin s uid then Inl RowLevelSecurity
          else Inr (s\<lparr>products := products s @
                         [\<lparr>p_id = next_id s, p_name = f_name f,
                           p_description = f_description f, p_price = price,
                           p_image_url = f_image_url f, p_category = f_category f,
                           p_is_featured = f_is_featured f\<rparr>],
                      next_id := Suc (next_id s)\<rparr>))"

definition update_products ::
  "store \<Rightarrow> uuid option \<Rightarrow> (product \<Rightarrow> bool) \<Rightarrow> product_fields \<Rightarrow> store_error + store" where
  "update_products s uid flt f =
     (if filter (\<lambda>p. is_admin s uid \<and> flt p) (products s) = [] then Inr s
      else
        (case numeric_10_2 (Fin (f_price f)) of
           Inl error \<Rightarrow> Inl error
         | Inr price \<Rightarrow>
             Inr (s\<lparr>products :=
                      map (\<lambda>p. if is_admin s uid \<and> flt p
                                then p\<lparr>p_name := f_name f, p_description := f_description f,
                                       p_price := price, p_image_url := f_image_url f,
                                       p_category := f_category f,
                                       p_is_featured := f_is_featured f\<rparr>
                                else p)
                        (products s)\<rparr>)))"

text \<open>
  Deleting a product takes the cart rows and order lines that reference it along
  (\<^verbatim>\<open>ON DELETE CASCADE\<close>).
\<close>

definition delete_products ::
  "store \<Rightarrow> uuid option \<Rightarrow> (product \<Rightarrow> bool) \<Rightarrow> store_error + store" where
  "delete_products s uid flt =
     (let gone = map p_id (filter (\<lambda>p. is_admin s uid \<and> flt p) (products s))
      in Inr (s\<lparr>products := filter (\<lambda>p. \<not> (is_admin s uid \<and> flt p)) (products s),
                cart_items := filter (\<lambda>r. c_product_id r \<notin> set gone) (cart_items s),
                order_items := filter (\<lambda>i. oi_product_id i \<notin> set gone) (order_items s)\<rparr>))"

section \<open>Cart provider\<close>

text \<open>
  Every operation of the cart provider takes the signed-in user of the auth context
  (\<open>None\<close> when nobody is signed in), which is also the identity the store sees,
  and returns the messages it shows together with the new state.
\<close>

text \<open>JavaScript's \<^verbatim>\<open>a || b\<close> on strings and on numbers.\<close>

definition or_string :: "string \<Rightarrow> string \<Rightarrow> string" where
  "or_string a b = (if a = [] then b else a)"

definition or_number :: "number \<Rightarrow> number \<Rightarrow> number" where
  "or_number a b = (if a = Fin 0 \<or> a = NaN then b else a)"

definition join_cart_row :: "product list \<Rightarrow> cart_row \<Rightarrow> CartItem" where
  "join_cart_row ps item =
     (case find (\<lambda>p. p_id p = c_product_id item) ps of
        None \<Rightarrow>
          \<lparr>ci_id = c_id item, ci_product_id = c_product_id item,
           ci_name = ''Unknown Product'', ci_price = Fin 0,
           ci_quantity = c_quantity item, ci_image_url = ''''\<rparr>
      | Some product \<Rightarrow>
          \<lparr>ci_id = c_id item, ci_product_id = c_product_id item,
           ci_name = or_string (p_name product) ''Unknown Product'',
           ci_price = or_number (to_number (p_price product)) (Fin 0),
           ci_quantity = c_quantity item,
           ci_image_url = or_string (p_image_url product) ''''\<rparr>)"

definition fetchCartItems :: "uuid option \<Rightarrow> world \<Rightarrow> toast list \<times> world" where
  "fetchCartItems user w =
     (case user of
        None \<Rightarrow> ([], w)
      | Some uid \<Rightarrow>
          (let cartItemsRes = select_cart_items (db w) user (\<lambda>r. c_user_id r = uid);
               productsRes = select_products (db w)
           in ([], w\<lparr>cartItems := map (join_cart_row productsRes) cartItemsRes\<rparr>)))"

definition addToCart :: "uuid option \<Rightarrow> product \<Rightarrow> world \<Rightarrow> toast list \<times> world" where
  "addToCart user product w =
     (case user of
        None \<Rightarrow> ([ToastError ''Please login to add items to cart''], w)
      | Some uid \<Rightarrow>
          (case single (select_cart_items (db w) user
                          (\<lambda>r. c_user_id r = uid \<and> c_product_id r = p_id product)) of
             Some existingItem \<Rightarrow>
               (case update_cart_quantity (db w) user (\<lambda>r. c_id r = c_id existingItem)
                       (c_quantity existingItem + 1) of
                  Inl error \<Rightarrow> ([ToastError ''Failed to add item to cart''], w)
                | Inr s' \<Rightarrow> fetchCartItems user (w\<lparr>db := s'\<rparr>))
           | None \<Rightarrow>
               (case insert_cart_item (db w) user uid (p_id product) 1 of
                  Inl error \<Rightarrow> ([ToastError ''Failed to add item to cart''], w)
                | Inr s' \<Rightarrow> fetchCartItems user (w\<lparr>db := s'\<rparr>))))"

definition removeFromCart :: "uuid option \<Rightarrow> uuid \<Rightarrow> world \<Rightarrow> toast list \<times> world" where
  "removeFromCart user productId w =
     (case user of
        None \<Rightarrow> ([], w)
      | Some uid \<Rightarrow>
          (case delete_cart_items (db w) user
                  (\<lambda>r. c_user_id r = uid \<and> c_product_id r = productId) of
             Inl error \<Rightarrow> ([ToastError ''Failed to remove item from cart''], w)
           | Inr s' \<Rightarrow> fetchCartItems user (w\<lparr>db := s'\<rparr>)))"

definition updateQuantity ::
  "uuid option \<Rightarrow> uuid \<Rightarrow> int \<Rightarrow> world \<Rightarrow> toast list \<times> world" where
  "updateQuantity user productId quantity w =
     (case user of
        None \<Rightarrow> ([], w)
      | Some uid \<Rightarrow>
          if quantity \<le> 0 then removeFromCart user productId w
          else
            (case update_cart_quantity (db w) user
                    (\<lambda>r. c_user_id r = uid \<and> c_product_id r = productId) quantity of
               Inl error \<Rightarrow> ([ToastError ''Failed to update quantity''], w)
             | Inr s' \<Rightarrow> fetchCartItems user (w\<lparr>db := s'\<rparr>)))"

definition clearCart :: "uuid option \<Rightarrow> world \<Rightarrow> toast list \<times> world" where
  "clearCart user w =
     (case user of
        None \<Rightarrow> ([], w)
      | Some uid \<Rightarrow>
          (case delete_cart_items (db w) user (\<lambda>r. c_user_id r = uid) of
             Inl error \<Rightarrow> ([ToastError ''Failed to clear cart''], w)
           | Inr s' \<Rightarrow> ([], w\<lparr>db := s', cartItems := []\<rparr>)))"

definition getCartTotal :: "CartItem list \<Rightarrow> number" where
  "getCartTotal items =
     foldl (\<lambda>total item. js_add total (js_mul (ci_price item) (js_int (ci_quantity item))))
       (Fin 0) items"

definition checkout :: "uuid option \<Rightarrow> world \<Rightarrow> toast list \<times> world" where
  "checkout user w =
     (case user of
        None \<Rightarrow> ([ToastError ''Cart is empty''], w)
      | Some uid \<Rightarrow>
          if cartItems w = [] then ([ToastError ''Cart is empty''], w)
          else
            (let totalAmount = getCartTotal (cartItems w)
             in case insert_order (db w) user uid totalAmount ''pending'' of
                  Inl orderError \<Rightarrow> ([ToastError ''Failed to process checkout''], w)
                | Inr (order, s1) \<Rightarrow>
                    (let orderItems =
                           map (\<lambda>item. (o_id order, ci_product_id item,
                                         ci_quantity item, ci_price item))
                             (cartItems w)
                     in case insert_order_items s1 user orderItems of
                          Inl orderItemsError \<Rightarrow>
                            ([ToastError ''Failed to process checkout''], w\<lparr>db := s1\<rparr>)
                        | Inr s2 \<Rightarrow>
                            (case clearCart user (w\<lparr>db := s2\<rparr>) of
                               (ts, w') \<Rightarrow>
                                 (ts @ [ToastSuccess ''Order placed successfully!''], w')))))"

section \<open>Admin dashboard\<close>

text \<open>
  \<^verbatim>\<open>String.prototype.trim\<close> on the byte strings of this model: leading and trailing
  white space and line terminators go.
\<close>

definition is_space :: "char \<Rightarrow> bool" where
  "is_space c =
     (c = CHR 0x09 \<or> c = CHR 0x0A \<or> c = CHR 0x0B \<or> c = CHR 0x0C \<or> c = CHR 0x0D \<or>
      c = CHR 0x20 \<or> c = CHR 0xA0)"

definition trim :: "string \<Rightarrow> string" where
  "trim str = rev (dropWhile is_space (rev (dropWhile is_space str)))"

definition form_columns :: "product_fields \<Rightarrow> product_fields" where
  "form_columns productForm =
     \<lparr>f_name = trim (f_name productForm),
      f_description = trim (f_description productForm),
      f_price = f_price productForm,
      f_image_url = trim (f_image_url productForm),
      f_category = trim (f_category productForm),
      f_is_featured = f_is_featured productForm\<rparr>"

text \<open>
  The handlers of the dashboard, over the store. \<open>productForm\<close> and
  \<open>editingProduct\<close> are the component's state when the form is submitted; a store
  error is shown with the store's own message. The listing the dashboard re-reads
  afterwards, and the modal and form resets, change nothing in the store and are not
  modelled.
\<close>

definition handleProductSubmit ::
  "uuid option \<Rightarrow> product_fields \<Rightarrow> product option \<Rightarrow> store \<Rightarrow> toast list \<times> store" where
  "handleProductSubmit uid productForm editingProduct s =
     (if trim (f_name productForm) = [] then
        ([ToastError ''Product name is required''], s)
      else if f_price productForm \<le> 0 then
        ([ToastError ''Price must be greater than 0''], s)
      else if trim (f_category productForm) = [] then
        ([ToastError ''Category is required''], s)
      else
        (case editingProduct of
           Some editing \<Rightarrow>
             (case update_products s uid (\<lambda>p. p_id p = p_id editing)
                     (form_columns productForm) of
                Inl error \<Rightarrow> ([ToastStoreError error], s)
              | Inr s' \<Rightarrow> ([ToastSuccess ''Product updated successfully!''], s'))
         | None \<Rightarrow>
             (case insert_product s uid (form_columns productForm) of
                Inl error \<Rightarrow> ([ToastStoreError error], s)
              | Inr s' \<Rightarrow> ([ToastSuccess ''Product created successfully!''], s'))))"

text \<open>\<open>confirmed\<close> is the answer to the browser's confirmation dialog.\<close>

definition handleDeleteProduct ::
  "uuid option \<Rightarrow> uuid \<Rightarrow> bool \<Rightarrow> store \<Rightarrow> toast list \<times> store" where
  "handleDeleteProduct uid ident confirmed s =
     (if \<not> confirmed then ([], s)
      else
        (case delete_products s uid (\<lambda>p. p_id p = ident) of
           Inl error \<Rightarrow> ([ToastStoreError error], s)
         | Inr s' \<Rightarrow> ([ToastSuccess ''Product deleted successfully!''], s')))"

definition handleUpdateOrderStatus ::
  "uuid option \<Rightarrow> uuid \<Rightarrow> string \<Rightarrow> store \<Rightarrow> toast list \<times> store" where
  "handleUpdateOrderStatus uid orderId newStatus s =
     (case update_order_status s uid (\<lambda>ord. o_id ord = orderId) newStatus of
        Inl error \<Rightarrow> ([ToastStoreError error], s)
      | Inr s' \<Rightarrow> ([ToastSuccess ''Order status updated!''], s'))"

text \<open>
  What the dashboard component renders: the spinner while the auth state loads, the
  access-denied screen for a missing or non-admin profile, and otherwise the panel,
  whose controls are the only callers of the handlers above.
\<close>

datatype screen = Spinner | AccessDenied | Panel

definition AdminDashboard :: "bool \<Rightarrow> profile option \<Rightarrow> screen" where
  "AdminDashboard authLoading prof =
     (if authLoading then Spinner
      else
        (case prof of
           None \<Rightarrow> AccessDenied
         | Some p \<Rightarrow> if pr_role p \<noteq> ''admin'' then AccessDenied else Panel))"

section \<open>Store invariants and sample data\<close>

text \<open>
  The key discipline of \<^verbatim>\<open>cart_items\<close>: the primary key \<^verbatim>\<open>id\<close> is unique, the pair
  (\<^verbatim>\<open>user_id\<close>, \<^verbatim>\<open>product_id\<close>) is unique, and generated identifiers are fresh.
  \<open>in_catalog\<close> is the target of the foreign keys on \<^verbatim>\<open>product_id\<close>.
\<close>

definition cart_keys_ok :: "store \<Rightarrow> bool" where
  "cart_keys_ok s =
     (distinct (map c_id (cart_items s)) \<and>
      distinct (map (\<lambda>r. (c_user_id r, c_product_id r)) (cart_items s)) \<and>
      list_all (\<lambda>r. c_id r < next_id s) (cart_items s))"

definition in_catalog :: "store \<Rightarrow> uuid \<Rightarrow> bool" where
  "in_catalog s pid = list_ex (\<lambda>p. p_id p = pid) (products s)"

definition cart_refs_ok :: "store \<Rightarrow> bool" where
  "cart_refs_ok s = list_all (\<lambda>r. in_catalog s (c_product_id r)) (cart_items s)"

definition store_ok :: "store \<Rightarrow> bool" where
  "store_ok s = (cart_keys_ok s \<and> cart_refs_ok s)"

text \<open>Rows of the seed data, and a customer registered afterwards.\<close>

definition margherita :: product where
  "margherita =
     \<lparr>p_id = 11, p_name = ''Margherita Pizza'',
      p_description = ''Classic pizza with fresh tomatoes, mozzarella, and basil'',
      p_price = 1699 / 100, p_image_url = ''margherita.jpg'', p_category = ''pizza'',
      p_is_featured = True\<rparr>"

definition garlic_bread :: product where
  "garlic_bread =
     \<lparr>p_id = 99, p_name = ''Garlic Bread'',
      p_description = ''Crispy bread with garlic butter and herbs'',
      p_price = 899 / 100, p_image_url = ''garlic.jpg'', p_category = ''appetizer'',
      p_is_featured = False\<rparr>"

definition admin_profile :: profile where
  "admin_profile =
     \<lparr>pr_id = 1, pr_email = ''admin123@gmail.com'', pr_full_name = ''Admin User'',
      pr_role = ''admin''\<rparr>"

definition customer_profile :: profile where
  "customer_profile =
     \<lparr>pr_id = 2, pr_email = ''maria@example.com'', pr_full_name = ''Maria Rodriguez'',
      pr_role = ''user''\<rparr>"

definition seed_store :: store where
  "seed_store =
     \<lparr>products = [margherita, garlic_bread], cart_items = [], orders = [],
      order_items = [], profiles = [admin_profile, customer_profile], next_id = 1000\<rparr>"

definition cart_store :: store where
  "cart_store =
     seed_store\<lparr>cart_items :=
       [\<lparr>c_id = 500, c_user_id = 2, c_product_id = 11, c_quantity = 2\<rparr>,
        \<lparr>c_id = 501, c_user_id = 2, c_product_id = 99, c_quantity = 1\<rparr>]\<rparr>"

definition loaded_world :: world where
  "loaded_world = snd (fetchCartItems (Some 2) \<lparr>db = cart_store, cartItems = []\<rparr>)"

definition order_store :: store where
  "order_store =
     seed_store\<lparr>orders :=
       [\<lparr>o_id = 700, o_user_id = 2, o_total_amount = 4297 / 100,
         o_status = ''delivered''\<rparr>]\<rparr>"

text \<open>
  The customer's cart was loaded, and then the admin deleted the Margherita: the store
  dropped the product and, with it, the customer's cart row; the loaded lines stayed.
\<close>

definition stale_world :: world where
  "stale_world =
     \<lparr>db = snd (handleDeleteProduct (Some 1) 11 True cart_store),
      cartItems = cartItems loaded_world\<rparr>"

text \<open>A cart line at the largest quantity, and a line with the largest price, twice.\<close>

definition full_store :: store where
  "full_store =
     seed_store\<lparr>cart_items :=
       [\<lparr>c_id = 500, c_user_id = 2, c_product_id = 11, c_quantity = 2147483647\<rparr>]\<rparr>"

definition costly_world :: world where
  "costly_world =
     \<lparr>db = cart_store,
      cartItems =
        [\<lparr>ci_id = 500, ci_product_id = 11, ci_name = ''Margherita Pizza'',
          ci_price = to_number (9999999999 / 100), ci_quantity = 2,
          ci_image_url = ''margherita.jpg''\<rparr>]\<rparr>"

lemmas sample_defs =
  seed_store_def cart_store_def order_store_def margherita_def garlic_bread_def
  admin_profile_def customer_profile_def


section \<open>Rounding\<close>

text \<open>
  The exponent found for a positive rational is its binary exponent, so the double a
  number is rounded to lies within half a unit of the last of its 53 bits; below
  \<open>2 ^ 27\<close>, which covers every amount a \<^verbatim>\<open>DECIMAL(10,2)\<close> column holds, that is
  within \<open>2 ^ - 27\<close>.
\<close>

lemma bit_length_bounds:
  "0 < n \<Longrightarrow> 0 < bit_length n \<and> 2 ^ nat (bit_length n - 1) \<le> n \<and> n < 2 ^ nat (bit_length n)"
proof (induction n rule: bit_length.induct)
  case (1 n)
  show ?case
  proof (cases "n = 1")
    case True
    have "bit_length 1 = 1"
      by (simp add: bit_length.simps [of 1] bit_length.simps [of 0])
    with True show ?thesis by simp
  next
    case False
    with "1.prems" have n2: "2 \<le> n" by simp
    then have pos: "0 < n div 2" by simp
    from "1.IH" "1.prems" pos
    have ih: "0 < bit_length (n div 2)"
      "2 ^ nat (bit_length (n div 2) - 1) \<le> n div 2"
      "n div 2 < 2 ^ nat (bit_length (n div 2))"
      by simp_all
    have bl: "bit_length n = 1 + bit_length (n div 2)"
      using "1.prems" by (simp add: bit_length.simps [of n])
    have e1: "nat (bit_length n - 1) = Suc (nat (bit_length (n div 2) - 1))"
      using ih(1) bl by simp
    have e2: "nat (bit_length n) = Suc (nat (bit_length (n div 2)))"
      using ih(1) bl by simp
    have "2 * 2 ^ nat (bit_length (n div 2) - 1) \<le> 2 * (n div 2)"
      using ih(2) by simp
    also have "\<dots> \<le> n" by simp
    finally have lo: "2 ^ nat (bit_length n - 1) \<le> n"
      by (simp add: e1)
    have "n div 2 + 1 \<le> 2 ^ nat (bit_length (n div 2))"
      using ih(3) by simp
    then have "2 * (n div 2) + 2 \<le> 2 * 2 ^ nat (bit_length (n div 2))"
      by simp
    moreover have "n < 2 * (n div 2) + 2" by presburger
    ultimately have hi: "n < 2 ^ nat (bit_length n)"
      by (simp add: e2)
    from bl ih(1) lo hi show ?thesis by simp
  qed
qed


lemma pow2_pos: "0 < pow2 e"
  by (simp add: pow2_def)

lemma pow2_nonneg_exp: "0 \<le> e \<Longrightarrow> pow2 e = 2 ^ nat e"
  by (simp add: pow2_def)

lemma pow2_neg_exp: "e \<le> 0 \<Longrightarrow> pow2 e = 1 / 2 ^ nat (- e)"
  by (simp add: pow2_def)

lemma pow2_add1: "pow2 (e + 1) = 2 * pow2 e"
proof (cases "0 \<le> e")
  case True
  then have "nat (e + 1) = Suc (nat e)" by simp
  with True show ?thesis by (simp add: pow2_def)
next
  case False
  then have "nat (- e) = Suc (nat (- (e + 1)))" by simp
  with False show ?thesis
    by (cases "e + 1 = 0") (simp_all add: pow2_def)
qed

lemma pow2_mono: "e \<le> e' \<Longrightarrow> pow2 e \<le> pow2 e'"
proof (induction "nat (e' - e)" arbitrary: e')
  case 0
  then show ?case by simp
next
  case (Suc k)
  then have "k = nat ((e' - 1) - e)" "e \<le> e' - 1" by simp_all
  with Suc.hyps(1) have "pow2 e \<le> pow2 (e' - 1)" by blast
  also have "\<dots> \<le> pow2 e'"
    using pow2_add1 [of "e' - 1"] pow2_pos [of "e' - 1"] by simp
  finally show ?case .
qed

lemma floor_log2_bounds:
  assumes "0 < a"
  shows "pow2 (floor_log2 a) \<le> a \<and> a < pow2 (floor_log2 a + 1)"
proof (cases "1 \<le> a")
  case True
  let ?n = "\<lfloor>a\<rfloor>"
  from True have n: "0 < ?n" by simp
  from bit_length_bounds [OF n]
  have b: "0 < bit_length ?n" "2 ^ nat (bit_length ?n - 1) \<le> ?n"
    "?n < 2 ^ nat (bit_length ?n)" by simp_all
  have e: "floor_log2 a = bit_length ?n - 1"
    using True by (simp add: floor_log2_def)
  have "(2::rat) ^ nat (bit_length ?n - 1) = of_int (2 ^ nat (bit_length ?n - 1))"
    by simp
  also have "\<dots> \<le> of_int ?n"
    using b(2) by (simp only: of_int_le_iff)
  also have "\<dots> \<le> a" by simp
  finally have lo: "pow2 (floor_log2 a) \<le> a"
    using b(1) by (simp add: e pow2_nonneg_exp)
  have "?n + 1 \<le> 2 ^ nat (bit_length ?n)" using b(3) by simp
  then have "(of_int (?n + 1) :: rat) \<le> of_int (2 ^ nat (bit_length ?n))"
    by (simp only: of_int_le_iff)
  moreover have "a < of_int (?n + 1)" by linarith
  ultimately have "a < 2 ^ nat (bit_length ?n)" by simp
  then have hi: "a < pow2 (floor_log2 a + 1)"
    using b(1) by (simp add: e pow2_nonneg_exp)
  from lo hi show ?thesis ..
next
  case False
  let ?b = "1 / a"
  let ?m = "\<lceil>?b\<rceil> - 1"
  from False assms have b1: "1 < ?b" by simp
  then have m: "0 < ?m" by linarith
  have mb: "of_int ?m < ?b" "?b \<le> of_int ?m + 1" by linarith+
  from bit_length_bounds [OF m]
  have k: "0 < bit_length ?m" "2 ^ nat (bit_length ?m - 1) \<le> ?m"
    "?m < 2 ^ nat (bit_length ?m)" by simp_all
  have e: "floor_log2 a = - bit_length ?m"
    using False by (simp add: floor_log2_def)
  have "?m + 1 \<le> 2 ^ nat (bit_length ?m)" using k(3) by simp
  then have up: "(of_int (?m + 1) :: rat) \<le> of_int (2 ^ nat (bit_length ?m))"
    by (simp only: of_int_le_iff)
  have "?b \<le> of_int (?m + 1)" using mb(2) by simp
  also note up
  also have "(of_int (2 ^ nat (bit_length ?m)) :: rat) = 2 ^ nat (bit_length ?m)" by simp
  finally have "?b \<le> 2 ^ nat (bit_length ?m)" .
  then have "1 \<le> a * 2 ^ nat (bit_length ?m)"
    using assms by (simp add: field_simps)
  then have lo: "pow2 (floor_log2 a) \<le> a"
    using k(1) by (simp add: e pow2_neg_exp field_simps)
  have "(2::rat) ^ nat (bit_length ?m - 1) = of_int (2 ^ nat (bit_length ?m - 1))"
    by simp
  also have "\<dots> \<le> of_int ?m"
    using k(2) by (simp only: of_int_le_iff)
  also have "\<dots> < ?b" by (rule mb(1))
  finally have "a * 2 ^ nat (bit_length ?m - 1) < 1"
    using assms by (simp add: field_simps)
  then have "a < 1 / 2 ^ nat (bit_length ?m - 1)"
    by (simp add: field_simps)
  moreover have "pow2 (- bit_length ?m + 1) = 1 / 2 ^ nat (bit_length ?m - 1)"
    using k(1) by (simp add: pow2_neg_exp)
  ultimately have hi: "a < pow2 (floor_log2 a + 1)"
    by (simp only: e)
  from lo hi show ?thesis ..
qed

lemma round_half_even_close: "\<bar>of_int (round_half_even m) - m\<bar> \<le> 1 / 2"
proof -
  have f: "of_int \<lfloor>m\<rfloor> \<le> m" "m < of_int \<lfloor>m\<rfloor> + 1" by linarith+
  show ?thesis
    unfolding round_half_even_def Let_def
    using f by (auto simp: abs_le_iff split: if_splits)
qed


lemma floor_log2_less:
  assumes "0 < a" and "a < pow2 k"
  shows "floor_log2 a < k"
proof (rule ccontr)
  assume "\<not> floor_log2 a < k"
  then have "pow2 k \<le> pow2 (floor_log2 a)" by (simp add: pow2_mono)
  also have "\<dots> \<le> a" using floor_log2_bounds [OF assms(1)] by simp
  finally show False using assms(2) by simp
qed

lemma round_double_close:
  assumes "\<bar>x\<bar> < pow2 27"
  shows "\<exists>y. round_double x = Fin y \<and> \<bar>y - x\<bar> \<le> pow2 (- 27)"
proof (cases "x = 0")
  case True
  then show ?thesis by (simp add: round_double_def pow2_def)
next
  case False
  define a where "a = \<bar>x\<bar>"
  define e where "e = max (floor_log2 a) (- 1022)"
  define q where "q = pow2 (e - 52)"
  define n where "n = round_half_even (a / q)"
  from False have a: "0 < a" by (simp add: a_def)
  have "floor_log2 a < 27"
    using floor_log2_less [OF a] assms by (simp add: a_def)
  then have e: "e \<le> 26" by (simp add: e_def)
  have q: "0 < q" by (simp add: q_def pow2_pos)
  have "\<bar>of_int n - a / q\<bar> \<le> 1 / 2"
    unfolding n_def by (rule round_half_even_close)
  then have "\<bar>of_int n - a / q\<bar> * q \<le> 1 / 2 * q"
    using q by (simp only: mult_le_cancel_right_pos)
  moreover have "\<bar>of_int n - a / q\<bar> * q = \<bar>of_int n * q - a\<bar>"
  proof -
    have "\<bar>of_int n - a / q\<bar> * q = \<bar>(of_int n - a / q) * q\<bar>"
      using q by (simp add: abs_mult)
    also have "(of_int n - a / q) * q = of_int n * q - a"
      using q by (simp add: field_simps)
    finally show ?thesis .
  qed
  moreover have "1 / 2 * q \<le> pow2 (- 27)"
  proof -
    have "2 * pow2 (e - 53) = pow2 (e - 52)"
      using pow2_add1 [of "e - 53"] by simp
    then have "1 / 2 * q = pow2 (e - 53)" by (simp add: q_def)
    also have "\<dots> \<le> pow2 (- 27)" using e by (intro pow2_mono) simp
    finally show ?thesis .
  qed
  ultimately have close: "\<bar>of_int n * q - a\<bar> \<le> pow2 (- 27)" by simp
  have rd: "round_double x = Fin (if 0 < x then of_int n * q else - (of_int n * q))"
    using False e
    by (simp add: round_double_def Let_def a_def [symmetric] e_def [symmetric]
          q_def [symmetric] n_def [symmetric])
  show ?thesis
  proof (cases "0 < x")
    case True
    with close rd show ?thesis by (simp add: a_def)
  next
    case neg: False
    with False have "x < 0" by simp
    then have "\<bar>- (of_int n * q) - x\<bar> = \<bar>of_int n * q - a\<bar>"
      by (simp add: a_def abs_minus_commute)
    with close rd neg show ?thesis by simp
  qed
qed

lemma round_half_away_near:
  assumes "\<bar>z - of_int j\<bar> < 1 / 2"
  shows "round_half_away z = j"
proof -
  from assms have "of_int j - 1 / 2 < z" "z < of_int j + 1 / 2"
    by (auto simp only: abs_less_iff)
  then have up: "\<lfloor>z + 1 / 2\<rfloor> = j" and down: "\<lfloor>- z + 1 / 2\<rfloor> = - j"
    by (simp_all add: floor_eq_iff)
  show ?thesis
    unfolding round_half_away_def using up down by simp
qed

text \<open>
  A price of the store, a decimal of two fractional digits below the column's limit,
  read as a number and sent back, is stored as the same decimal.
\<close>

lemma stored_price_round_trip:
  assumes "\<bar>k\<bar> < 10000000000"
  shows "numeric_10_2 (to_number (of_int k / 100)) = Inr (of_int k / 100)"
proof -
  let ?p = "of_int k / 100 :: rat"
  have small: "\<bar>?p\<bar> < pow2 27"
  proof -
    have "\<bar>?p\<bar> < 100000000" using assms by simp
    also have "\<dots> \<le> pow2 27" by (simp add: pow2_def)
    finally show ?thesis .
  qed
  from round_double_close [OF small]
  obtain y where y: "round_double ?p = Fin y" and close: "\<bar>y - ?p\<bar> \<le> pow2 (- 27)"
    by blast
  have "pow2 (- 27) < 1 / 2000" by (simp add: pow2_def)
  with close have c2: "\<bar>y - ?p\<bar> < 1 / 2000" by simp
  have "\<bar>y * 1000 - of_int (k * 10)\<bar> = \<bar>y - ?p\<bar> * 1000"
  proof -
    have "y * 1000 - of_int (k * 10) = (y - ?p) * 1000" by simp
    then have "\<bar>y * 1000 - of_int (k * 10)\<bar> = \<bar>(y - ?p) * 1000\<bar>" by (simp only:)
    also have "\<dots> = \<bar>y - ?p\<bar> * 1000" by (simp only: abs_mult)
    finally show ?thesis .
  qed
  with c2 have "\<bar>y * 1000 - of_int (k * 10)\<bar> < 1 / 2" by simp
  then have r3: "round_half_away (y * 1000) = k * 10"
    by (rule round_half_away_near)
  have c: "of_int (k * 10) / 1000 = ?p" by simp
  have jd: "json_decimal y = ?p"
    unfolding json_decimal_def Let_def r3 c using y by simp
  have "\<bar>(of_int k :: rat) - of_int k\<bar> < 1 / 2" by simp
  then have r2: "round_half_away (of_int k) = k"
    by (rule round_half_away_near)
  have lim: "\<not> 100000000 \<le> \<bar>?p\<bar>" using assms by simp
  show ?thesis
    unfolding to_number_def y numeric_10_2_def
    using lim by (simp add: jd r2 Let_def)
qed

section \<open>Numbers of the examples\<close>

lemma number_1699: "to_number (1699 / 100) = Fin (4782259854314045 / 281474976710656)"
  unfolding to_number_def by code_simp

lemma number_899: "to_number (899 / 100) = Fin (5060920081257595 / 562949953421312)"
  unfolding to_number_def by code_simp

lemma number_4297: "to_number (4297 / 100) = Fin (1511872468657111 / 35184372088832)"
  unfolding to_number_def by code_simp

lemma number_tenth: "to_number (1 / 10) = Fin (3602879701896397 / 36028797018963968)"
  unfolding to_number_def by code_simp

lemma number_three_tenths: "to_number (3 / 10) = Fin (5404319552844595 / 18014398509481984)"
  unfolding to_number_def by code_simp

lemma number_costly: "to_number (9999999999 / 100) = Fin (6710886399328911 / 67108864)"
  unfolding to_number_def by code_simp

lemma js_int_1: "js_int 1 = Fin 1"
  unfolding js_int_def by code_simp

lemma js_int_2: "js_int 2 = Fin 2"
  unfolding js_int_def by code_simp

lemma js_int_3: "js_int 3 = Fin 3"
  unfolding js_int_def by code_simp

lemma example_total:
  "js_add (js_add (Fin 0) (js_mul (to_number (1699 / 100)) (js_int 2)))
     (js_mul (to_number (899 / 100)) (js_int 1)) = to_number (4297 / 100)"
  unfolding to_number_def js_int_def by code_simp

lemma tenth_times_three:
  "js_add (Fin 0) (js_mul (to_number (1 / 10)) (js_int 3)) =
     Fin (1351079888211149 / 4503599627370496)"
  unfolding to_number_def js_int_def by code_simp

lemma costly_total:
  "js_add (Fin 0) (js_mul (to_number (9999999999 / 100)) (js_int 2)) =
     Fin (6710886399328911 / 33554432)"
  unfolding to_number_def js_int_def by code_simp

lemma costly_total_refused:
  "numeric_10_2 (Fin (6710886399328911 / 33554432)) = Inl NumericOverflow"
  by code_simp

lemma stored_4297: "numeric_10_2 (to_number (4297 / 100)) = Inr (4297 / 100)"
  unfolding to_number_def by code_simp

lemma stored_1699: "numeric_10_2 (to_number (1699 / 100)) = Inr (1699 / 100)"
  unfolding to_number_def by code_simp

lemma stored_899: "numeric_10_2 (to_number (899 / 100)) = Inr (899 / 100)"
  unfolding to_number_def by code_simp

text \<open>
  The number 1.005 lies below the decimal 1.005, and is stored as 1.01 all the same,
  since the decimal is what the request carries; 0.30000000000000004 is stored as 0.30.
\<close>

lemma stored_1005:
  "to_number (1005 / 1000) = Fin (1131529406376837 / 1125899906842624)
   \<and> numeric_10_2 (to_number (1005 / 1000)) = Inr (101 / 100)
   \<and> numeric_10_2 (Fin (1351079888211149 / 4503599627370496)) = Inr (3 / 10)"
  unfolding to_number_def by code_simp

lemma stored_small_price:
  "to_number (4 / 1000) = Fin (1152921504606847 / 288230376151711744)
   \<and> numeric_10_2 (Fin (1152921504606847 / 288230376151711744)) = Inr 0"
  unfolding to_number_def by code_simp

section \<open>Helper facts\<close>

lemma getCartTotal_fold:
  "foldl (\<lambda>total item. js_add total (js_mul (ci_price item) (js_int (ci_quantity item))))
     a items =
   foldl js_add a (map (\<lambda>item. js_mul (ci_price item) (js_int (ci_quantity item))) items)"
  by (induction items arbitrary: a) simp_all

lemma select_own_key:
  "select_cart_items s (Some u) (\<lambda>r. c_user_id r = u \<and> P r) =
     filter (\<lambda>r. c_user_id r = u \<and> P r) (cart_items s)"
  by (auto simp: select_cart_items_def cart_visible_def intro: filter_cong)

lemma select_own:
  "select_cart_items s (Some u) (\<lambda>r. c_user_id r = u) =
     filter (\<lambda>r. c_user_id r = u) (cart_items s)"
  by (auto simp: select_cart_items_def cart_visible_def intro: filter_cong)

lemma fetch_db: "db (snd (fetchCartItems user w)) = db w"
  by (simp add: fetchCartItems_def Let_def split: option.split)

lemma fetch_toasts: "fst (fetchCartItems user w) = []"
  by (simp add: fetchCartItems_def Let_def split: option.split)

lemma fetch_cartItems:
  "cartItems (snd (fetchCartItems (Some u) w)) =
     map (join_cart_row (products (db w)))
       (filter (\<lambda>r. c_user_id r = u) (cart_items (db w)))"
  by (simp add: fetchCartItems_def Let_def select_own select_products_def)

lemma join_cart_row_product: "ci_product_id (join_cart_row ps r) = c_product_id r"
  by (simp add: join_cart_row_def split: option.split)

text \<open>
  A snapshot that was just loaded from a store whose cart rows respect the foreign key
  references catalog products only.
\<close>

lemma loaded_lines_in_catalog:
  assumes "cart_refs_ok (db w)"
  shows "list_all (\<lambda>item. in_catalog (db w) (ci_product_id item))
           (cartItems (snd (fetchCartItems (Some u) w)))"
  using assms
  by (simp add: fetch_cartItems cart_refs_ok_def list_all_iff join_cart_row_product)

text \<open>
  The price of a loaded line, sent with an order line, is stored as the price the
  product has in the store.
\<close>

lemma loaded_price_copied:
  assumes "find (\<lambda>p. p_id p = c_product_id r) ps = Some product"
    and "p_price product = of_int k / 100"
    and "\<bar>k\<bar> < 10000000000"
  shows "numeric_10_2 (ci_price (join_cart_row ps r)) = Inr (p_price product)"
proof -
  have "\<bar>of_int k / 100 :: rat\<bar> < pow2 27"
  proof -
    have "\<bar>of_int k / 100 :: rat\<bar> < 100000000" using assms(3) by simp
    also have "\<dots> \<le> pow2 27" by (simp add: pow2_def)
    finally show ?thesis .
  qed
  from round_double_close [OF this]
  obtain y where "to_number (of_int k / 100) = Fin y"
    by (auto simp: to_number_def)
  then have "or_number (to_number (of_int k / 100)) (Fin 0) = to_number (of_int k / 100)"
    by (simp add: or_number_def)
  then have "numeric_10_2 (or_number (to_number (p_price product)) (Fin 0)) =
      Inr (p_price product)"
    unfolding assms(2) using stored_price_round_trip [OF assms(3)] by (simp only:)
  with assms(1) show ?thesis
    by (simp add: join_cart_row_def)
qed

lemma filter_key_single:
  "distinct (map f xs) \<Longrightarrow> r \<in> set xs \<Longrightarrow> filter (\<lambda>x. f x = f r) xs = [r]"
proof (induction xs)
  case Nil
  then show ?case by simp
next
  case (Cons a xs)
  show ?case
  proof (cases "a = r")
    case True
    with Cons.prems have "\<forall>x\<in>set xs. f x \<noteq> f r" by (auto simp: image_iff)
    then have "filter (\<lambda>x. f x = f r) xs = []" by (simp add: filter_empty_conv)
    with True show ?thesis by simp
  next
    case False
    with Cons.prems have r: "r \<in> set xs" and d: "distinct (map f xs)" by auto
    from Cons.prems r have "f a \<noteq> f r" by auto
    with Cons.IH[OF d r] show ?thesis by simp
  qed
qed

lemma addToCart_new_line:
  assumes "in_catalog (db w) (p_id product)"
    and "filter (\<lambda>r. c_user_id r = u \<and> c_product_id r = p_id product)
           (cart_items (db w)) = []"
  shows "addToCart (Some u) product w =
    fetchCartItems (Some u)
      (w\<lparr>db := (db w)\<lparr>cart_items := cart_items (db w) @
                       [\<lparr>c_id = next_id (db w), c_user_id = u,
                         c_product_id = p_id product, c_quantity = 1\<rparr>],
                     next_id := Suc (next_id (db w))\<rparr>\<rparr>)"
proof -
  from assms(2)
  have "\<not> list_ex (\<lambda>r. c_user_id r = u \<and> c_product_id r = p_id product)
           (cart_items (db w))"
    by (simp add: list_ex_iff filter_empty_conv)
  with assms show ?thesis
    by (simp add: addToCart_def select_own_key single_def insert_cart_item_def
          in_catalog_def int4_def)
qed

lemma reached_existing_line:
  assumes "filter (\<lambda>r. c_user_id r = u \<and> c_product_id r = pid) (cart_items s) = [r]"
  shows "filter (\<lambda>x. cart_own (Some u) x \<and> c_id x = c_id r) (cart_items s) \<noteq> []"
proof -
  from assms have "r \<in> set (filter (\<lambda>r. c_user_id r = u \<and> c_product_id r = pid)
                              (cart_items s))"
    by simp
  then have "r \<in> set (cart_items s)" and "c_user_id r = u" by auto
  then show ?thesis
    by (auto simp: filter_empty_conv cart_own_def)
qed

lemma addToCart_existing_line:
  assumes "filter (\<lambda>r. c_user_id r = u \<and> c_product_id r = p_id product)
             (cart_items (db w)) = [r]"
    and "int4 (c_quantity r + 1)"
  shows "addToCart (Some u) product w =
    fetchCartItems (Some u)
      (w\<lparr>db := (db w)\<lparr>cart_items :=
           map (\<lambda>x. if c_user_id x = u \<and> c_id x = c_id r
                     then x\<lparr>c_quantity := c_quantity r + 1\<rparr> else x)
             (cart_items (db w))\<rparr>\<rparr>)"
  using assms
  by (simp add: addToCart_def select_own_key single_def update_cart_quantity_def
        cart_own_def)

lemma addToCart_existing_line_full:
  assumes "filter (\<lambda>r. c_user_id r = u \<and> c_product_id r = p_id product)
             (cart_items (db w)) = [r]"
    and "\<not> int4 (c_quantity r + 1)"
  shows "addToCart (Some u) product w = ([ToastError ''Failed to add item to cart''], w)"
  using assms reached_existing_line [OF assms(1)]
  by (simp add: addToCart_def select_own_key single_def update_cart_quantity_def)

lemma number_order_items_proj:
  "map (\<lambda>i. (oi_order_id i, oi_product_id i, oi_quantity i, oi_price i))
     (number_order_items n rows) = rows"
  by (induction n rows rule: number_order_items.induct) simp_all

lemma number_order_items_length: "length (number_order_items n rows) = length rows"
  by (induction n rows rule: number_order_items.induct) simp_all

lemma convert_all_list_all2:
  "convert_all f xs = Inr ys \<Longrightarrow> list_all2 (\<lambda>x y. f x = Inr y) xs ys"
  by (induction xs arbitrary: ys) (auto split: sum.splits)

lemma convert_all_length: "convert_all f xs = Inr ys \<Longrightarrow> length ys = length xs"
  by (drule convert_all_list_all2) (simp add: list_all2_lengthD)

lemma trim_Nil: "trim [] = []"
  by (simp add: trim_def)

lemma loaded_world_eq:
  "loaded_world =
     \<lparr>db = cart_store,
      cartItems =
        [\<lparr>ci_id = 500, ci_product_id = 11, ci_name = ''Margherita Pizza'',
          ci_price = to_number (1699 / 100), ci_quantity = 2,
          ci_image_url = ''margherita.jpg''\<rparr>,
         \<lparr>ci_id = 501, ci_product_id = 99, ci_name = ''Garlic Bread'',
          ci_price = to_number (899 / 100), ci_quantity = 1,
          ci_image_url = ''garlic.jpg''\<rparr>]\<rparr>"
  by (simp add: loaded_world_def fetchCartItems_def select_cart_items_def
        cart_visible_def select_products_def join_cart_row_def or_string_def
        or_number_def sample_defs number_1699 number_899)

lemma stale_world_eq:
  "stale_world =
     \<lparr>db = seed_store
        \<lparr>products := [garlic_bread],
         cart_items := [\<lparr>c_id = 501, c_user_id = 2, c_product_id = 99, c_quantity = 1\<rparr>]\<rparr>,
      cartItems =
        [\<lparr>ci_id = 500, ci_product_id = 11, ci_name = ''Margherita Pizza'',
          ci_price = to_number (1699 / 100), ci_quantity = 2,
          ci_image_url = ''margherita.jpg''\<rparr>,
         \<lparr>ci_id = 501, ci_product_id = 99, ci_name = ''Garlic Bread'',
          ci_price = to_number (899 / 100), ci_quantity = 1,
          ci_image_url = ''garlic.jpg''\<rparr>]\<rparr>"
  by (simp add: stale_world_def loaded_world_eq handleDeleteProduct_def delete_products_def
        is_admin_def sample_defs)

lemma loaded_total: "getCartTotal (cartItems loaded_world) = to_number (4297 / 100)"
  by (simp add: loaded_world_eq getCartTotal_def example_total)

section \<open>The store's invariants are kept\<close>

text \<open>
  The key discipline of the cart table and its references into the catalog hold in the
  seed store and are kept by every cart operation and by every dashboard handler, so
  they hold in every store the application can reach.
\<close>

lemma in_catalog_iff: "in_catalog s pid \<longleftrightarrow> pid \<in> set (map p_id (products s))"
  by (auto simp: in_catalog_def list_ex_iff)

lemma cart_keys_ok_mono:
  assumes "cart_keys_ok s" and "cart_items s' = cart_items s" and "next_id s \<le> next_id s'"
  shows "cart_keys_ok s'"
  using assms by (auto simp: cart_keys_ok_def list_all_iff)

lemma cart_refs_ok_mono:
  assumes "cart_refs_ok s" and "cart_items s' = cart_items s"
    and "set (map p_id (products s)) \<subseteq> set (map p_id (products s'))"
  shows "cart_refs_ok s'"
  using assms unfolding cart_refs_ok_def list_all_iff in_catalog_iff by auto

lemma store_ok_mono:
  assumes "store_ok s" and "cart_items s' = cart_items s" and "next_id s \<le> next_id s'"
    and "set (map p_id (products s)) \<subseteq> set (map p_id (products s'))"
  shows "store_ok s'"
  using assms cart_keys_ok_mono cart_refs_ok_mono unfolding store_ok_def by blast

lemma insert_cart_item_ok:
  assumes "insert_cart_item s uid user_id product_id quantity = Inr s'" and "store_ok s"
  shows "store_ok s'"
proof -
  from assms(1) have
    new: "\<not> list_ex (\<lambda>r. c_user_id r = user_id \<and> c_product_id r = product_id) (cart_items s)"
    and cat: "list_ex (\<lambda>p. p_id p = product_id) (products s)"
    and s': "s' = s\<lparr>cart_items := cart_items s @
                     [\<lparr>c_id = next_id s, c_user_id = user_id,
                       c_product_id = product_id, c_quantity = quantity\<rparr>],
                  next_id := Suc (next_id s)\<rparr>"
    by (auto simp: insert_cart_item_def split: if_splits)
  from assms(2) new have "cart_keys_ok s'"
    by (auto simp: s' store_ok_def cart_keys_ok_def list_all_iff list_ex_iff)
  moreover from assms(2) cat have "cart_refs_ok s'"
    by (auto simp: s' store_ok_def cart_refs_ok_def in_catalog_def list_all_iff)
  ultimately show ?thesis by (simp add: store_ok_def)
qed

lemma update_cart_quantity_ok:
  assumes "update_cart_quantity s uid flt quantity = Inr s'" and "store_ok s"
  shows "store_ok s'"
proof -
  let ?f = "\<lambda>r. if cart_own uid r \<and> flt r then r\<lparr>c_quantity := quantity\<rparr> else r"
  from assms(1) have s': "s' = s\<lparr>cart_items := map ?f (cart_items s)\<rparr>"
    by (auto simp: update_cart_quantity_def split: if_splits)
  have ids: "map c_id (map ?f (cart_items s)) = map c_id (cart_items s)"
    by simp
  have keys: "map (\<lambda>r. (c_user_id r, c_product_id r)) (map ?f (cart_items s)) =
              map (\<lambda>r. (c_user_id r, c_product_id r)) (cart_items s)"
    by simp
  from assms(2) have "cart_keys_ok s'"
    unfolding cart_keys_ok_def store_ok_def s'
    by (simp add: ids keys del: map_map) (auto simp: list_all_iff)
  moreover from assms(2) have "cart_refs_ok s'"
    by (auto simp: s' store_ok_def cart_refs_ok_def in_catalog_def list_all_iff)
  ultimately show ?thesis by (simp add: store_ok_def)
qed

lemma delete_cart_items_ok:
  assumes "delete_cart_items s uid flt = Inr s'" and "store_ok s"
  shows "store_ok s'"
proof -
  from assms(1) have s': "s' = s\<lparr>cart_items := filter (\<lambda>r. \<not> (cart_own uid r \<and> flt r)) (cart_items s)\<rparr>"
    by (auto simp: delete_cart_items_def)
  from assms(2) show ?thesis
    by (auto simp: s' store_ok_def cart_keys_ok_def cart_refs_ok_def in_catalog_def
          list_all_iff distinct_map_filter)
qed

lemma fetchCartItems_ok: "store_ok (db (snd (fetchCartItems user w))) = store_ok (db w)"
  by (simp add: fetch_db)

lemma addToCart_keeps_store_ok:
  assumes "store_ok (db w)"
  shows "store_ok (db (snd (addToCart user product w)))"
  using assms
  by (auto simp: addToCart_def fetch_db split: option.splits sum.splits
        dest: insert_cart_item_ok update_cart_quantity_ok)

lemma removeFromCart_keeps_store_ok:
  assumes "store_ok (db w)"
  shows "store_ok (db (snd (removeFromCart user productId w)))"
  using assms
  by (auto simp: removeFromCart_def fetch_db split: option.splits sum.splits
        dest: delete_cart_items_ok)

lemma updateQuantity_keeps_store_ok:
  assumes "store_ok (db w)"
  shows "store_ok (db (snd (updateQuantity user productId quantity w)))"
  using assms removeFromCart_keeps_store_ok [OF assms]
  by (auto simp: updateQuantity_def fetch_db split: option.splits sum.splits
        dest: update_cart_quantity_ok)

lemma clearCart_keeps_store_ok:
  assumes "store_ok (db w)"
  shows "store_ok (db (snd (clearCart user w)))"
  using assms
  by (auto simp: clearCart_def split: option.splits sum.splits
        dest: delete_cart_items_ok)

lemma insert_order_ok:
  assumes "insert_order s uid user_id amount status = Inr (row, s')" and "store_ok s"
  shows "store_ok s'"
proof -
  from assms(1) have "s' = s\<lparr>orders := orders s @ [row], next_id := Suc (next_id s)\<rparr>"
    by (auto simp: insert_order_def Let_def split: if_splits sum.splits)
  then show ?thesis
    by (intro store_ok_mono [OF assms(2)]) simp_all
qed

lemma insert_order_items_ok:
  assumes "insert_order_items s uid rows = Inr s'" and "store_ok s"
  shows "store_ok s'"
proof -
  from assms(1)
  have "cart_items s' = cart_items s" "next_id s \<le> next_id s'" "products s' = products s"
    by (auto simp: insert_order_items_def split: if_splits sum.splits)
  then show ?thesis
    by (intro store_ok_mono [OF assms(2)]) simp_all
qed

lemma checkout_keeps_store_ok:
  assumes "store_ok (db w)"
  shows "store_ok (db (snd (checkout user w)))"
proof (cases user)
  case None
  with assms show ?thesis by (simp add: checkout_def)
next
  case (Some uid)
  show ?thesis
  proof (cases "cartItems w = []")
    case True
    with assms Some show ?thesis by (simp add: checkout_def)
  next
    case False
    show ?thesis
    proof (cases "insert_order (db w) user uid (getCartTotal (cartItems w)) ''pending''")
      case (Inl e)
      with assms Some False show ?thesis by (simp add: checkout_def Let_def)
    next
      case (Inr p)
      obtain row s1 where p: "p = (row, s1)" by (cases p)
      have ok1: "store_ok s1" using insert_order_ok Inr p assms by blast
      show ?thesis
      proof (cases "insert_order_items s1 user
                      (map (\<lambda>item. (o_id row, ci_product_id item, ci_quantity item, ci_price item))
                         (cartItems w))")
        case (Inl e)
        with Some False Inr p ok1 show ?thesis by (simp add: checkout_def Let_def)
      next
        case (Inr s2)
        have ok2: "store_ok s2" using insert_order_items_ok Inr ok1 by blast
        obtain ts w' where cc: "clearCart user (w\<lparr>db := s2\<rparr>) = (ts, w')"
          by (cases "clearCart user (w\<lparr>db := s2\<rparr>)")
        have "store_ok (db (snd (clearCart user (w\<lparr>db := s2\<rparr>))))"
          using clearCart_keeps_store_ok [of "w\<lparr>db := s2\<rparr>" user] ok2 by simp
        then have "store_ok (db w')" by (simp add: cc)
        with Some False \<open>insert_order _ _ _ _ _ = Inr p\<close> p Inr cc show ?thesis
          by (simp add: checkout_def Let_def)
      qed
    qed
  qed
qed

lemma insert_product_ok:
  assumes "insert_product s uid f = Inr s'" and "store_ok s"
  shows "store_ok s'"
proof -
  from assms(1) have "cart_items s' = cart_items s" "next_id s' = Suc (next_id s)"
    "set (map p_id (products s)) \<subseteq> set (map p_id (products s'))"
    by (auto simp: insert_product_def split: if_splits sum.splits)
  then show ?thesis
    by (intro store_ok_mono [OF assms(2)]) simp_all
qed

lemma update_products_ok:
  assumes "update_products s uid flt f = Inr s'" and "store_ok s"
  shows "store_ok s'"
proof -
  have "map p_id (products s') = map p_id (products s)"
    using assms(1) by (auto simp: update_products_def split: if_splits sum.splits)
  moreover have "cart_items s' = cart_items s" "next_id s' = next_id s"
    using assms(1) by (auto simp: update_products_def split: if_splits sum.splits)
  ultimately show ?thesis
    by (intro store_ok_mono [OF assms(2)]) simp_all
qed

lemma delete_products_ok:
  assumes "delete_products s uid flt = Inr s'" and "store_ok s"
  shows "store_ok s'"
proof -
  let ?gone = "map p_id (filter (\<lambda>p. is_admin s uid \<and> flt p) (products s))"
  from assms(1) have
    ps: "products s' = filter (\<lambda>p. \<not> (is_admin s uid \<and> flt p)) (products s)"
    and cs: "cart_items s' = filter (\<lambda>r. c_product_id r \<notin> set ?gone) (cart_items s)"
    and n: "next_id s' = next_id s"
    by (auto simp: delete_products_def Let_def)
  from assms(2) have "cart_keys_ok s'"
    by (auto simp: store_ok_def cart_keys_ok_def cs n list_all_iff distinct_map_filter)
  moreover have "cart_refs_ok s'"
    unfolding cart_refs_ok_def list_all_iff
  proof
    fix r assume "r \<in> set (cart_items s')"
    then have r: "r \<in> set (cart_items s)" and ng: "c_product_id r \<notin> set ?gone"
      by (auto simp: cs)
    from assms(2) r obtain p where p: "p \<in> set (products s)" "p_id p = c_product_id r"
      by (auto simp: store_ok_def cart_refs_ok_def in_catalog_def list_all_iff list_ex_iff)
    with ng have "\<not> (is_admin s uid \<and> flt p)" by force
    with p have "p \<in> set (products s')" by (simp add: ps)
    with p show "in_catalog s' (c_product_id r)"
      by (auto simp: in_catalog_def list_ex_iff)
  qed
  ultimately show ?thesis by (simp add: store_ok_def)
qed

lemma update_order_status_ok:
  assumes "update_order_status s uid flt status = Inr s'" and "store_ok s"
  shows "store_ok s'"
proof -
  from assms(1) have "cart_items s' = cart_items s" "next_id s' = next_id s"
    "products s' = products s"
    by (auto simp: update_order_status_def split: if_splits)
  then show ?thesis
    by (intro store_ok_mono [OF assms(2)]) simp_all
qed

lemma handlers_keep_store_ok:
  assumes "store_ok s"
  shows "store_ok (snd (handleProductSubmit uid productForm editingProduct s))"
    and "store_ok (snd (handleDeleteProduct uid ident confirmed s))"
    and "store_ok (snd (handleUpdateOrderStatus uid orderId newStatus s))"
  using assms
  by (auto simp: handleProductSubmit_def handleDeleteProduct_def
        handleUpdateOrderStatus_def split: option.splits sum.splits
        dest: insert_product_ok update_products_ok delete_products_ok
          update_order_status_ok)

lemma seed_store_ok: "store_ok seed_store"
  by (simp add: store_ok_def cart_keys_ok_def cart_refs_ok_def sample_defs)

text \<open>
  A price the validation lets through is stored as the column rounds it: the admin's
  new product at price 0.004 is created with price 0.00.
\<close>

lemma handleProductSubmit_rounds_price:
  "handleProductSubmit (Some 1)
     \<lparr>f_name = ''Calzone'', f_description = [],
      f_price = 1152921504606847 / 288230376151711744, f_image_url = [],
      f_category = ''pizza'', f_is_featured = False\<rparr> None seed_store =
     ([ToastSuccess ''Product created successfully!''],
      seed_store
        \<lparr>products :=
           [margherita, garlic_bread,
            \<lparr>p_id = 1000, p_name = ''Calzone'', p_description = [], p_price = 0,
              p_image_url = [], p_category = ''pizza'', p_is_featured = False\<rparr>],
         next_id := 1001\<rparr>)"
proof -
  have "numeric_10_2 (Fin (1152921504606847 / 288230376151711744)) = Inr 0"
    using stored_small_price by simp
  then show ?thesis
    by (simp add: handleProductSubmit_def insert_product_def form_columns_def trim_def
          is_space_def is_admin_def sample_defs)
qed

section \<open>Checkout\<close>

text \<open>
  C1. When a signed-in user checks out a non-empty loaded cart of which every line
  references a product still in the catalog and has a quantity and a price the columns
  of the order lines take (\<open>cols\<close> are the lines as the store's columns take them), and
  of which the pre-checkout total, rounded to two decimals, fits the order's column,
  then the success message is shown and the store holds exactly one new order, with
  status pending and that rounded total, one order line per loaded cart line, in order,
  with the line's product and quantity and its price rounded to two decimals; the user's
  cart rows are deleted and the loaded cart is empty. The pre-checkout total is the sum
  of price times quantity over the loaded lines, from left to right, in double
  arithmetic.
\<close>

theorem checkout_places_order:
  assumes ne: "cartItems w \<noteq> []"
    and cat: "list_all (\<lambda>item. in_catalog (db w) (ci_product_id item)) (cartItems w)"
    and tot: "numeric_10_2 (getCartTotal (cartItems w)) = Inr amount"
    and lines:
      "convert_all order_item_columns
         (map (\<lambda>item. (next_id (db w), ci_product_id item, ci_quantity item,
                        ci_price item)) (cartItems w)) = Inr cols"
  shows "checkout (Some u) w =
     ([ToastSuccess ''Order placed successfully!''],
      \<lparr>db = (db w)
         \<lparr>cart_items := filter (\<lambda>r. c_user_id r \<noteq> u) (cart_items (db w)),
          orders := orders (db w) @
            [\<lparr>o_id = next_id (db w), o_user_id = u,
              o_total_amount = amount, o_status = ''pending''\<rparr>],
          order_items := order_items (db w) @
            number_order_items (Suc (next_id (db w))) cols,
          next_id := Suc (next_id (db w)) + length (cartItems w)\<rparr>,
       cartItems = []\<rparr>)
   \<and> map (\<lambda>i. (oi_order_id i, oi_product_id i, oi_quantity i, oi_price i))
       (number_order_items (Suc (next_id (db w))) cols) = cols
   \<and> list_all2
       (\<lambda>item col. int4 (ci_quantity item) \<and>
          (case col of
             (oid, pid, q, price) \<Rightarrow>
               oid = next_id (db w) \<and> pid = ci_product_id item \<and>
               q = ci_quantity item \<and> numeric_10_2 (ci_price item) = Inr price))
       (cartItems w) cols
   \<and> getCartTotal (cartItems w) =
     foldl js_add (Fin 0)
       (map (\<lambda>item. js_mul (ci_price item) (js_int (ci_quantity item))) (cartItems w))"
proof (intro conjI)
  let ?row = "\<lparr>o_id = next_id (db w), o_user_id = u,
              o_total_amount = amount, o_status = ''pending''\<rparr>"
  let ?s1 = "(db w)\<lparr>orders := orders (db w) @ [?row], next_id := Suc (next_id (db w))\<rparr>"
  let ?rows = "map (\<lambda>item. (next_id (db w), ci_product_id item, ci_quantity item,
                             ci_price item)) (cartItems w)"
  have ins1:
    "insert_order (db w) (Some u) u (getCartTotal (cartItems w)) ''pending'' =
       Inr (?row, ?s1)"
    by (simp add: insert_order_def tot valid_status_def Let_def)
  have conv: "list_all2 (\<lambda>x y. order_item_columns x = Inr y) ?rows cols"
    using lines by (rule convert_all_list_all2)
  have len: "length cols = length (cartItems w)"
    using convert_all_length [OF lines] by simp
  have each: "list_all2
       (\<lambda>item col. int4 (ci_quantity item) \<and>
          (case col of
             (oid, pid, q, price) \<Rightarrow>
               oid = next_id (db w) \<and> pid = ci_product_id item \<and>
               q = ci_quantity item \<and> numeric_10_2 (ci_price item) = Inr price))
       (cartItems w) cols"
    using conv
    by (auto simp: list_all2_map1 order_item_columns_def
          elim!: list_all2_mono split: if_splits sum.splits)
  show "list_all2
       (\<lambda>item col. int4 (ci_quantity item) \<and>
          (case col of
             (oid, pid, q, price) \<Rightarrow>
               oid = next_id (db w) \<and> pid = ci_product_id item \<and>
               q = ci_quantity item \<and> numeric_10_2 (ci_price item) = Inr price))
       (cartItems w) cols"
    by (rule each)
  have col_facts:
    "\<forall>col\<in>set cols. \<exists>item\<in>set (cartItems w).
        fst col = next_id (db w) \<and> fst (snd col) = ci_product_id item"
  proof
    fix col assume "col \<in> set cols"
    then obtain i where i: "i < length cols" "cols ! i = col"
      by (auto simp: in_set_conv_nth)
    from each i have "case col of
             (oid, pid, q, price) \<Rightarrow>
               oid = next_id (db w) \<and> pid = ci_product_id (cartItems w ! i)"
      by (auto simp: list_all2_conv_all_nth split: prod.splits)
    moreover from i len have "cartItems w ! i \<in> set (cartItems w)" by simp
    ultimately show "\<exists>item\<in>set (cartItems w).
        fst col = next_id (db w) \<and> fst (snd col) = ci_product_id item"
      by (auto split: prod.splits)
  qed
  have rls: "list_all (\<lambda>(oid, pid, q, pr). order_item_allowed ?s1 (Some u) oid) cols"
    using col_facts by (auto simp: list_all_iff order_item_allowed_def)
  have fk: "list_all (\<lambda>(oid, pid, q, pr).
                    list_ex (\<lambda>ord. o_id ord = oid) (orders ?s1) \<and>
                    list_ex (\<lambda>p. p_id p = pid) (products ?s1)) cols"
    using col_facts cat by (fastforce simp: list_all_iff in_catalog_def)
  have ins2: "insert_order_items ?s1 (Some u) ?rows =
     Inr (?s1\<lparr>order_items := order_items ?s1 @ number_order_items (next_id ?s1) cols,
              next_id := next_id ?s1 + length cols\<rparr>)"
    unfolding insert_order_items_def using rls fk by (simp add: lines)
  show "checkout (Some u) w =
     ([ToastSuccess ''Order placed successfully!''],
      \<lparr>db = (db w)
         \<lparr>cart_items := filter (\<lambda>r. c_user_id r \<noteq> u) (cart_items (db w)),
          orders := orders (db w) @ [?row],
          order_items := order_items (db w) @
            number_order_items (Suc (next_id (db w))) cols,
          next_id := Suc (next_id (db w)) + length (cartItems w)\<rparr>,
       cartItems = []\<rparr>)"
    using ne
    by (simp add: checkout_def ins1 Let_def ins2 len clearCart_def delete_cart_items_def
          cart_own_def)
  show "map (\<lambda>i. (oi_order_id i, oi_product_id i, oi_quantity i, oi_price i))
          (number_order_items (Suc (next_id (db w))) cols) = cols"
    by (rule number_order_items_proj)
  show "getCartTotal (cartItems w) =
     foldl js_add (Fin 0)
       (map (\<lambda>item. js_mul (ci_price item) (js_int (ci_quantity item))) (cartItems w))"
    by (simp add: getCartTotal_def getCartTotal_fold)
qed

theorem checkout_places_order_witness:
  "cartItems loaded_world \<noteq> []
   \<and> list_all (\<lambda>item. in_catalog (db loaded_world) (ci_product_id item))
       (cartItems loaded_world)
   \<and> numeric_10_2 (getCartTotal (cartItems loaded_world)) = Inr (4297 / 100)
   \<and> checkout (Some 2) loaded_world =
     ([ToastSuccess ''Order placed successfully!''],
      \<lparr>db = seed_store
         \<lparr>orders :=
            [\<lparr>o_id = 1000, o_user_id = 2, o_total_amount = 4297 / 100,
              o_status = ''pending''\<rparr>],
          order_items :=
            [\<lparr>oi_id = 1001, oi_order_id = 1000, oi_product_id = 11, oi_quantity = 2,
              oi_price = 1699 / 100\<rparr>,
             \<lparr>oi_id = 1002, oi_order_id = 1000, oi_product_id = 99, oi_quantity = 1,
              oi_price = 899 / 100\<rparr>],
          next_id := 1003\<rparr>,
       cartItems = []\<rparr>)"
proof -
  have h1: "cartItems loaded_world \<noteq> []"
    by (simp add: loaded_world_eq)
  have h2: "list_all (\<lambda>item. in_catalog (db loaded_world) (ci_product_id item))
              (cartItems loaded_world)"
    by (simp add: loaded_world_eq in_catalog_def sample_defs)
  have h3: "numeric_10_2 (getCartTotal (cartItems loaded_world)) = Inr (4297 / 100)"
    by (simp add: loaded_total stored_4297)
  have h4: "convert_all order_item_columns
         (map (\<lambda>item. (next_id (db loaded_world), ci_product_id item, ci_quantity item,
                        ci_price item)) (cartItems loaded_world)) =
       Inr [(1000, 11, 2, 1699 / 100), (1000, 99, 1, 899 / 100)]"
    by (simp add: loaded_world_eq order_item_columns_def int4_def stored_1699 stored_899
          sample_defs)
  from checkout_places_order [OF h1 h2 h3 h4, of 2]
  have "checkout (Some 2) loaded_world =
     ([ToastSuccess ''Order placed successfully!''],
      \<lparr>db = (db loaded_world)
         \<lparr>cart_items := filter (\<lambda>r. c_user_id r \<noteq> 2) (cart_items (db loaded_world)),
          orders := orders (db loaded_world) @
            [\<lparr>o_id = next_id (db loaded_world), o_user_id = 2,
              o_total_amount = 4297 / 100, o_status = ''pending''\<rparr>],
          order_items := order_items (db loaded_world) @
            number_order_items (Suc (next_id (db loaded_world)))
              [(1000, 11, 2, 1699 / 100), (1000, 99, 1, 899 / 100)],
          next_id := Suc (next_id (db loaded_world)) + length (cartItems loaded_world)\<rparr>,
       cartItems = []\<rparr>)"
    by (rule conjunct1)
  then have "checkout (Some 2) loaded_world =
     ([ToastSuccess ''Order placed successfully!''],
      \<lparr>db = seed_store
         \<lparr>orders :=
            [\<lparr>o_id = 1000, o_user_id = 2, o_total_amount = 4297 / 100,
              o_status = ''pending''\<rparr>],
          order_items :=
            [\<lparr>oi_id = 1001, oi_order_id = 1000, oi_product_id = 11, oi_quantity = 2,
              oi_price = 1699 / 100\<rparr>,
             \<lparr>oi_id = 1002, oi_order_id = 1000, oi_product_id = 99, oi_quantity = 1,
              oi_price = 899 / 100\<rparr>],
          next_id := 1003\<rparr>,
       cartItems = []\<rparr>)"
    by (simp add: loaded_world_eq sample_defs)
  with h1 h2 h3 show ?thesis by simp
qed

text \<open>
  The claim as the specification words it, for every non-empty loaded cart, does not
  hold. On the stale cart the order is written, the order lines are refused for the
  deleted product, and checkout reports a failure: one order without lines is left,
  the customer's remaining cart row and the loaded lines stay. On the cart whose total
  is 199999999.98 the order is refused and nothing is written.
\<close>

theorem checkout_stale_or_costly_cart_fails:
  "checkout (Some 2) stale_world =
     ([ToastError ''Failed to process checkout''],
      \<lparr>db = seed_store
         \<lparr>products := [garlic_bread],
          cart_items := [\<lparr>c_id = 501, c_user_id = 2, c_product_id = 99, c_quantity = 1\<rparr>],
          orders :=
            [\<lparr>o_id = 1000, o_user_id = 2, o_total_amount = 4297 / 100,
              o_status = ''pending''\<rparr>],
          next_id := 1001\<rparr>,
       cartItems = cartItems stale_world\<rparr>)
   \<and> cartItems stale_world \<noteq> []
   \<and> checkout (Some 2) costly_world =
       ([ToastError ''Failed to process checkout''], costly_world)"
proof (intro conjI)
  have total: "getCartTotal (cartItems stale_world) = to_number (4297 / 100)"
    by (simp add: stale_world_eq getCartTotal_def example_total)
  have ins1: "insert_order (db stale_world) (Some 2) 2 (to_number (4297 / 100)) ''pending'' =
      Inr (\<lparr>o_id = 1000, o_user_id = 2, o_total_amount = 4297 / 100,
            o_status = ''pending''\<rparr>,
           (db stale_world)
             \<lparr>orders := [\<lparr>o_id = 1000, o_user_id = 2, o_total_amount = 4297 / 100,
                           o_status = ''pending''\<rparr>],
              next_id := 1001\<rparr>)"
    by (simp add: insert_order_def stored_4297 valid_status_def Let_def stale_world_eq
          sample_defs)
  have ins2: "insert_order_items
      ((db stale_world)
         \<lparr>orders := [\<lparr>o_id = 1000, o_user_id = 2, o_total_amount = 4297 / 100,
                       o_status = ''pending''\<rparr>],
          next_id := 1001\<rparr>) (Some 2)
      (map (\<lambda>item. (1000, ci_product_id item, ci_quantity item, ci_price item))
         (cartItems stale_world)) = Inl ForeignKeyViolation"
    by (simp add: insert_order_items_def order_item_columns_def int4_def stored_1699
          stored_899 order_item_allowed_def stale_world_eq sample_defs)
  show "checkout (Some 2) stale_world =
     ([ToastError ''Failed to process checkout''],
      \<lparr>db = seed_store
         \<lparr>products := [garlic_bread],
          cart_items := [\<lparr>c_id = 501, c_user_id = 2, c_product_id = 99, c_quantity = 1\<rparr>],
          orders :=
            [\<lparr>o_id = 1000, o_user_id = 2, o_total_amount = 4297 / 100,
              o_status = ''pending''\<rparr>],
          next_id := 1001\<rparr>,
       cartItems = cartItems stale_world\<rparr>)"
    unfolding checkout_def total
    by (simp add: ins1 ins2 Let_def) (simp add: stale_world_eq sample_defs)
  show "cartItems stale_world \<noteq> []"
    by (simp add: stale_world_eq)
  have costly: "getCartTotal (cartItems costly_world) = Fin (6710886399328911 / 33554432)"
    by (simp add: costly_world_def getCartTotal_def costly_total)
  show "checkout (Some 2) costly_world =
       ([ToastError ''Failed to process checkout''], costly_world)"
    unfolding checkout_def costly
    by (simp add: insert_order_def costly_total_refused Let_def) (simp add: costly_world_def)
qed

text \<open>
  C6. Checkout with no loaded cart lines shows the empty-cart error and changes
  nothing: no order is written, and the store and the loaded cart stay as they were.
\<close>

theorem checkout_empty_cart:
  assumes "cartItems w = []"
  shows "checkout user w = ([ToastError ''Cart is empty''], w)"
  using assms by (simp add: checkout_def split: option.split)

theorem checkout_empty_cart_witness:
  "cartItems \<lparr>db = seed_store, cartItems = []\<rparr> = []
   \<and> checkout (Some 2) \<lparr>db = seed_store, cartItems = []\<rparr> =
       ([ToastError ''Cart is empty''], \<lparr>db = seed_store, cartItems = []\<rparr>)"
  using checkout_empty_cart [of "\<lparr>db = seed_store, cartItems = []\<rparr>" "Some 2"]
  by simp

section \<open>Cart lines\<close>

text \<open>
  C4. For a signed-in user U and a product P of the catalog, in a store that keeps the
  keys of the cart table: starting with no line for (U, P), one add creates the line with
  quantity 1 and a second add leaves exactly one line for (U, P), with quantity 2. When
  a line for (U, P) exists, an add raises that line's quantity by 1, changes no other
  row and shows no message, provided the raised quantity fits the quantity column, that
  is, the line is below 2147483647; otherwise the add shows its failure message and
  changes nothing.
\<close>

theorem addToCart_cart_line:
  assumes keys: "cart_keys_ok (db w)"
    and cat: "in_catalog (db w) (p_id product)"
  shows
    "(filter (\<lambda>r. c_user_id r = u \<and> c_product_id r = p_id product)
        (cart_items (db w)) = [] \<longrightarrow>
        fst (addToCart (Some u) product w) = [] \<and>
        db (snd (addToCart (Some u) product w)) =
          (db w)\<lparr>cart_items := cart_items (db w) @
                    [\<lparr>c_id = next_id (db w), c_user_id = u,
                      c_product_id = p_id product, c_quantity = 1\<rparr>],
                  next_id := Suc (next_id (db w))\<rparr> \<and>
        fst (addToCart (Some u) product (snd (addToCart (Some u) product w))) = [] \<and>
        db (snd (addToCart (Some u) product (snd (addToCart (Some u) product w)))) =
          (db w)\<lparr>cart_items := cart_items (db w) @
                    [\<lparr>c_id = next_id (db w), c_user_id = u,
                      c_product_id = p_id product, c_quantity = 2\<rparr>],
                  next_id := Suc (next_id (db w))\<rparr> \<and>
        filter (\<lambda>r. c_user_id r = u \<and> c_product_id r = p_id product)
          (cart_items (db (snd (addToCart (Some u) product
             (snd (addToCart (Some u) product w)))))) =
          [\<lparr>c_id = next_id (db w), c_user_id = u,
            c_product_id = p_id product, c_quantity = 2\<rparr>])
     \<and> (\<forall>r. r \<in> set (cart_items (db w)) \<and> c_user_id r = u \<and>
             c_product_id r = p_id product \<and> int4 (c_quantity r + 1) \<longrightarrow>
            fst (addToCart (Some u) product w) = [] \<and>
            db (snd (addToCart (Some u) product w)) =
              (db w)\<lparr>cart_items :=
                        map (\<lambda>x. if x = r then x\<lparr>c_quantity := c_quantity x + 1\<rparr> else x)
                          (cart_items (db w))\<rparr>)
     \<and> (\<forall>r. r \<in> set (cart_items (db w)) \<and> c_user_id r = u \<and>
             c_product_id r = p_id product \<and> \<not> int4 (c_quantity r + 1) \<longrightarrow>
            addToCart (Some u) product w =
              ([ToastError ''Failed to add item to cart''], w))"
proof (intro conjI impI allI)
  let ?key = "\<lambda>r. c_user_id r = u \<and> c_product_id r = p_id product"
  let ?new = "\<lambda>q. \<lparr>c_id = next_id (db w), c_user_id = u,
                     c_product_id = p_id product, c_quantity = q\<rparr>"
  let ?s1 = "(db w)\<lparr>cart_items := cart_items (db w) @ [?new 1],
                    next_id := Suc (next_id (db w))\<rparr>"
  let ?w1 = "snd (addToCart (Some u) product w)"
  from keys
  have d: "distinct (map (\<lambda>r. (c_user_id r, c_product_id r)) (cart_items (db w)))"
    and di: "distinct (map c_id (cart_items (db w)))"
    by (simp_all add: cart_keys_ok_def)
  have one_line: "filter ?key (cart_items (db w)) = [r]"
    if r: "r \<in> set (cart_items (db w))" "c_user_id r = u" "c_product_id r = p_id product"
    for r
  proof -
    have "filter (\<lambda>x. (c_user_id x, c_product_id x) = (c_user_id r, c_product_id r))
            (cart_items (db w)) = [r]"
      using filter_key_single [OF d r(1)] .
    with r show ?thesis by simp
  qed
  {
    assume none: "filter ?key (cart_items (db w)) = []"
    have step1: "addToCart (Some u) product w = fetchCartItems (Some u) (w\<lparr>db := ?s1\<rparr>)"
      using addToCart_new_line [OF cat none] .
    show "fst (addToCart (Some u) product w) = []"
      by (simp add: step1 fetch_toasts)
    show db1: "db ?w1 = ?s1"
      by (simp add: step1 fetch_db)
    have one: "filter ?key (cart_items (db ?w1)) = [?new 1]"
      by (simp add: db1 none)
    have fits: "int4 (c_quantity (?new 1) + 1)"
      by (simp add: int4_def)
    have step2: "addToCart (Some u) product ?w1 =
        fetchCartItems (Some u) (?w1\<lparr>db := (db ?w1)\<lparr>cart_items :=
           map (\<lambda>x. if c_user_id x = u \<and> c_id x = c_id (?new 1)
                     then x\<lparr>c_quantity := c_quantity (?new 1) + 1\<rparr> else x)
             (cart_items (db ?w1))\<rparr>\<rparr>)"
      using addToCart_existing_line [OF one fits] .
    from keys have fresh: "\<forall>x\<in>set (cart_items (db w)). c_id x \<noteq> next_id (db w)"
      by (auto simp: cart_keys_ok_def list_all_iff)
    then have same:
      "\<And>g. map (\<lambda>x. if c_user_id x = u \<and> c_id x = next_id (db w) then g x else x)
              (cart_items (db w)) = cart_items (db w)"
      by (simp add: map_idI)
    show "fst (addToCart (Some u) product ?w1) = []"
      by (simp add: step2 fetch_toasts)
    show db2: "db (snd (addToCart (Some u) product ?w1)) =
          (db w)\<lparr>cart_items := cart_items (db w) @ [?new 2],
                  next_id := Suc (next_id (db w))\<rparr>"
      by (simp add: step2 fetch_db db1 same)
    show "filter ?key (cart_items (db (snd (addToCart (Some u) product ?w1)))) = [?new 2]"
      by (simp add: db2 none)
  }
  {
    fix r
    assume r: "r \<in> set (cart_items (db w)) \<and> c_user_id r = u \<and>
               c_product_id r = p_id product \<and> int4 (c_quantity r + 1)"
    then have rin: "r \<in> set (cart_items (db w))" and fits: "int4 (c_quantity r + 1)"
      by simp_all
    have one: "filter ?key (cart_items (db w)) = [r]"
      using one_line r by simp
    have step: "addToCart (Some u) product w =
        fetchCartItems (Some u) (w\<lparr>db := (db w)\<lparr>cart_items :=
           map (\<lambda>x. if c_user_id x = u \<and> c_id x = c_id r
                     then x\<lparr>c_quantity := c_quantity r + 1\<rparr> else x)
             (cart_items (db w))\<rparr>\<rparr>)"
      using addToCart_existing_line [OF one fits] .
    have "map (\<lambda>x. if c_user_id x = u \<and> c_id x = c_id r
                    then x\<lparr>c_quantity := c_quantity r + 1\<rparr> else x) (cart_items (db w))
        = map (\<lambda>x. if x = r then x\<lparr>c_quantity := c_quantity x + 1\<rparr> else x)
            (cart_items (db w))"
      using di rin r by (intro map_cong) (auto simp: distinct_map dest: inj_onD)
    then show "db (snd (addToCart (Some u) product w)) =
              (db w)\<lparr>cart_items :=
                        map (\<lambda>x. if x = r then x\<lparr>c_quantity := c_quantity x + 1\<rparr> else x)
                          (cart_items (db w))\<rparr>"
      by (simp add: step fetch_db)
    show "fst (addToCart (Some u) product w) = []"
      by (simp add: step fetch_toasts)
  }
  {
    fix r
    assume r: "r \<in> set (cart_items (db w)) \<and> c_user_id r = u \<and>
               c_product_id r = p_id product \<and> \<not> int4 (c_quantity r + 1)"
    have one: "filter ?key (cart_items (db w)) = [r]"
      using one_line r by simp
    from r have full: "\<not> int4 (c_quantity r + 1)" by simp
    show "addToCart (Some u) product w = ([ToastError ''Failed to add item to cart''], w)"
      using addToCart_existing_line_full [OF one full] .
  }
qed

theorem addToCart_cart_line_witness:
  "cart_keys_ok seed_store \<and> in_catalog seed_store (p_id margherita)
   \<and> cart_items (db (snd (addToCart (Some 2) margherita
        (snd (addToCart (Some 2) margherita \<lparr>db = seed_store, cartItems = []\<rparr>))))) =
       [\<lparr>c_id = 1000, c_user_id = 2, c_product_id = 11, c_quantity = 2\<rparr>]
   \<and> cart_keys_ok cart_store \<and> in_catalog cart_store (p_id garlic_bread)
   \<and> cart_items (db (snd (addToCart (Some 2) garlic_bread
        \<lparr>db = cart_store, cartItems = []\<rparr>))) =
       [\<lparr>c_id = 500, c_user_id = 2, c_product_id = 11, c_quantity = 2\<rparr>,
        \<lparr>c_id = 501, c_user_id = 2, c_product_id = 99, c_quantity = 2\<rparr>]"
proof -
  have k1: "cart_keys_ok (db \<lparr>db = seed_store, cartItems = []\<rparr>)"
    by (simp add: cart_keys_ok_def sample_defs)
  have c1: "in_catalog (db \<lparr>db = seed_store, cartItems = []\<rparr>) (p_id margherita)"
    by (simp add: in_catalog_def sample_defs)
  have k2: "cart_keys_ok (db \<lparr>db = cart_store, cartItems = []\<rparr>)"
    by (simp add: cart_keys_ok_def sample_defs)
  have c2: "in_catalog (db \<lparr>db = cart_store, cartItems = []\<rparr>) (p_id garlic_bread)"
    by (simp add: in_catalog_def sample_defs)
  have first: "cart_items (db (snd (addToCart (Some 2) margherita
        (snd (addToCart (Some 2) margherita \<lparr>db = seed_store, cartItems = []\<rparr>))))) =
       [\<lparr>c_id = 1000, c_user_id = 2, c_product_id = 11, c_quantity = 2\<rparr>]"
    using addToCart_cart_line [OF k1 c1, of 2]
    by (simp add: sample_defs)
  have second: "cart_items (db (snd (addToCart (Some 2) garlic_bread
        \<lparr>db = cart_store, cartItems = []\<rparr>))) =
       [\<lparr>c_id = 500, c_user_id = 2, c_product_id = 11, c_quantity = 2\<rparr>,
        \<lparr>c_id = 501, c_user_id = 2, c_product_id = 99, c_quantity = 2\<rparr>]"
    using addToCart_cart_line
            [OF k2 c2, of 2, THEN conjunct2, THEN conjunct1, THEN spec,
             of "\<lparr>c_id = 501, c_user_id = 2, c_product_id = 99, c_quantity = 1\<rparr>"]
    by (simp add: sample_defs int4_def)
  from k1 c1 k2 c2 first second show ?thesis by simp
qed

text \<open>
  The claim as the specification words it, that an add always raises an existing line's
  quantity by 1, does not hold at the largest quantity the column takes: the store
  refuses 2147483648, the add shows its failure message and the line stays as it was.
\<close>

theorem addToCart_full_line_fails:
  "addToCart (Some 2) margherita \<lparr>db = full_store, cartItems = []\<rparr> =
     ([ToastError ''Failed to add item to cart''], \<lparr>db = full_store, cartItems = []\<rparr>)"
  by (simp add: addToCart_def select_cart_items_def cart_visible_def single_def
        update_cart_quantity_def cart_own_def int4_def full_store_def sample_defs)

text \<open>
  C5. With a quantity of zero or less, updating a quantity is removing the item: both
  return the same messages and the same state. For a signed-in user no message is shown,
  the cart rows for (user, product) are deleted, so that none is left, and nothing else
  in the store changes.
\<close>

theorem updateQuantity_nonpositive_removes:
  assumes "quantity \<le> 0"
  shows "updateQuantity user productId quantity w = removeFromCart user productId w
   \<and> fst (updateQuantity (Some u) productId quantity w) = []
   \<and> db (snd (updateQuantity (Some u) productId quantity w)) =
       (db w)\<lparr>cart_items :=
                 filter (\<lambda>r. \<not> (c_user_id r = u \<and> c_product_id r = productId))
                   (cart_items (db w))\<rparr>
   \<and> filter (\<lambda>r. c_user_id r = u \<and> c_product_id r = productId)
       (cart_items (db (snd (updateQuantity (Some u) productId quantity w)))) = []"
proof (intro conjI)
  show same: "updateQuantity user productId quantity w = removeFromCart user productId w"
    using assms by (cases user) (simp_all add: updateQuantity_def removeFromCart_def)
  have rm: "removeFromCart (Some u) productId w =
      fetchCartItems (Some u)
        (w\<lparr>db := (db w)\<lparr>cart_items :=
               filter (\<lambda>r. \<not> (c_user_id r = u \<and> c_product_id r = productId))
                 (cart_items (db w))\<rparr>\<rparr>)"
    by (simp add: removeFromCart_def delete_cart_items_def cart_own_def)
  have upd: "updateQuantity (Some u) productId quantity w =
      removeFromCart (Some u) productId w"
    using assms by (simp add: updateQuantity_def)
  show "fst (updateQuantity (Some u) productId quantity w) = []"
    by (simp add: upd rm fetch_toasts)
  show after: "db (snd (updateQuantity (Some u) productId quantity w)) =
       (db w)\<lparr>cart_items :=
                 filter (\<lambda>r. \<not> (c_user_id r = u \<and> c_product_id r = productId))
                   (cart_items (db w))\<rparr>"
    by (simp add: upd rm fetch_db)
  show "filter (\<lambda>r. c_user_id r = u \<and> c_product_id r = productId)
       (cart_items (db (snd (updateQuantity (Some u) productId quantity w)))) = []"
    by (auto simp: after filter_empty_conv)
qed

theorem updateQuantity_nonpositive_removes_witness:
  "(0::int) \<le> 0
   \<and> updateQuantity (Some 2) 11 0 loaded_world = removeFromCart (Some 2) 11 loaded_world
   \<and> cart_items (db (snd (updateQuantity (Some 2) 11 0 loaded_world))) =
       [\<lparr>c_id = 501, c_user_id = 2, c_product_id = 99, c_quantity = 1\<rparr>]"
proof -
  have h: "(0::int) \<le> 0" by simp
  note t = updateQuantity_nonpositive_removes [OF h, of "Some 2" 11 loaded_world 2]
  from t have e: "updateQuantity (Some 2) 11 0 loaded_world =
      removeFromCart (Some 2) 11 loaded_world"
    by (rule conjunct1)
  from t have d: "db (snd (updateQuantity (Some 2) 11 0 loaded_world)) =
      (db loaded_world)\<lparr>cart_items :=
         filter (\<lambda>r. \<not> (c_user_id r = 2 \<and> c_product_id r = 11))
           (cart_items (db loaded_world))\<rparr>"
    by blast
  have "cart_items (db (snd (updateQuantity (Some 2) 11 0 loaded_world))) =
       [\<lparr>c_id = 501, c_user_id = 2, c_product_id = 99, c_quantity = 1\<rparr>]"
    unfolding d by (simp add: loaded_world_eq sample_defs)
  with h e show ?thesis by simp
qed

text \<open>
  C2. Updating the quantity of a product for which the signed-in user has no cart line,
  with a positive quantity, shows no message at all (no error is reported) and leaves
  the store as it was; in particular no line is created.
\<close>

theorem updateQuantity_missing_line_silent:
  assumes "0 < quantity"
    and "filter (\<lambda>r. c_user_id r = u \<and> c_product_id r = productId)
           (cart_items (db w)) = []"
  shows "fst (updateQuantity (Some u) productId quantity w) = []
     \<and> db (snd (updateQuantity (Some u) productId quantity w)) = db w"
proof -
  from assms(2)
  have same: "\<And>g. map (\<lambda>r. if c_user_id r = u \<and> c_user_id r = u \<and>
                            c_product_id r = productId
                       then g r else r) (cart_items (db w)) = cart_items (db w)"
    by (intro map_idI) (auto simp: filter_empty_conv)
  from assms(2)
  have none: "filter (\<lambda>r. c_user_id r = u \<and> c_user_id r = u \<and> c_product_id r = productId)
                (cart_items (db w)) = []"
    by (auto simp: filter_empty_conv)
  from assms(1) same none show ?thesis
    by (simp add: updateQuantity_def update_cart_quantity_def cart_own_def fetch_db
          fetch_toasts)
qed

theorem updateQuantity_missing_line_silent_witness:
  "(0::int) < 3
   \<and> filter (\<lambda>r. c_user_id r = 2 \<and> c_product_id r = 11)
       (cart_items (db \<lparr>db = seed_store, cartItems = []\<rparr>)) = []
   \<and> fst (updateQuantity (Some 2) 11 3 \<lparr>db = seed_store, cartItems = []\<rparr>) = []
   \<and> db (snd (updateQuantity (Some 2) 11 3 \<lparr>db = seed_store, cartItems = []\<rparr>)) =
       seed_store"
  using updateQuantity_missing_line_silent
          [of 3 2 11 "\<lparr>db = seed_store, cartItems = []\<rparr>"]
  by (simp add: seed_store_def)

text \<open>
  The claim as the specification words it, that this call fails with a not-found error,
  does not hold: on the seed store, where customer 2 has no cart line, the call returns
  without any message and with the state unchanged.
\<close>

theorem updateQuantity_missing_line_no_error:
  "updateQuantity (Some 2) 11 3 \<lparr>db = seed_store, cartItems = []\<rparr> =
     ([], \<lparr>db = seed_store, cartItems = []\<rparr>)"
  by (simp add: updateQuantity_def update_cart_quantity_def fetchCartItems_def
        select_cart_items_def seed_store_def)

text \<open>
  C10. With no signed-in user no cart operation changes the store or the loaded cart.
  Removing an item, updating a quantity and clearing the cart return without any
  message; checkout shows the empty-cart error, whatever lines are loaded; adding an
  item asks the user to log in.
\<close>

theorem cart_ops_without_user:
  "removeFromCart None productId w = ([], w)
   \<and> updateQuantity None productId quantity w = ([], w)
   \<and> clearCart None w = ([], w)
   \<and> checkout None w = ([ToastError ''Cart is empty''], w)
   \<and> addToCart None product w = ([ToastError ''Please login to add items to cart''], w)
   \<and> fetchCartItems None w = ([], w)"
  by (simp add: removeFromCart_def updateQuantity_def clearCart_def checkout_def
        addToCart_def fetchCartItems_def)

theorem cart_ops_without_user_witness:
  "cartItems loaded_world \<noteq> []
   \<and> checkout None loaded_world = ([ToastError ''Cart is empty''], loaded_world)
   \<and> clearCart None loaded_world = ([], loaded_world)"
  using cart_ops_without_user [of 11 loaded_world 1 margherita]
  by (simp add: loaded_world_eq)

section \<open>Cart total\<close>

text \<open>
  C7. The cart total is a function of the loaded lines alone: the sum of price times
  quantity over them, taken from left to right in double arithmetic, every product and
  every partial sum rounded to the nearest double. The lines (16.99, 2) and (8.99, 1)
  total 42.97.
\<close>

theorem getCartTotal_double_sum:
  "getCartTotal items =
     foldl js_add (Fin 0)
       (map (\<lambda>item. js_mul (ci_price item) (js_int (ci_quantity item))) items)
   \<and> getCartTotal
       [\<lparr>ci_id = i1, ci_product_id = p1, ci_name = n1, ci_price = to_number (1699 / 100),
         ci_quantity = 2, ci_image_url = u1\<rparr>,
        \<lparr>ci_id = i2, ci_product_id = p2, ci_name = n2, ci_price = to_number (899 / 100),
         ci_quantity = 1, ci_image_url = u2\<rparr>] = to_number (4297 / 100)"
  by (simp add: getCartTotal_def getCartTotal_fold example_total)

text \<open>
  The claim as the specification words it, that the total always equals the sum of price
  times quantity, does not hold of the exact sum: one line of price 0.1 and quantity 3
  totals 0.30000000000000004, which is neither the number 0.3 nor the fraction 3/10.
\<close>

theorem getCartTotal_not_exact_sum:
  "getCartTotal
     [\<lparr>ci_id = 500, ci_product_id = 11, ci_name = ''Margherita Pizza'',
       ci_price = to_number (1 / 10), ci_quantity = 3,
       ci_image_url = ''margherita.jpg''\<rparr>] =
     Fin (1351079888211149 / 4503599627370496)
   \<and> getCartTotal
     [\<lparr>ci_id = 500, ci_product_id = 11, ci_name = ''Margherita Pizza'',
       ci_price = to_number (1 / 10), ci_quantity = 3,
       ci_image_url = ''margherita.jpg''\<rparr>] \<noteq> to_number (3 / 10)
   \<and> getCartTotal
     [\<lparr>ci_id = 500, ci_product_id = 11, ci_name = ''Margherita Pizza'',
       ci_price = to_number (1 / 10), ci_quantity = 3,
       ci_image_url = ''margherita.jpg''\<rparr>] \<noteq> Fin (3 / 10)"
  by (simp add: getCartTotal_def tenth_times_three number_three_tenths)

section \<open>Admin operations\<close>

text \<open>
  C8. A product form whose name is empty, whose price is not greater than 0 or whose
  category is empty is rejected, for a new product as for an edited one: the only effect
  is one error message, which names the first field found wrong (name, then price, then
  category; a name or category of white space only counts as empty), and the store is
  not touched.
\<close>

theorem handleProductSubmit_validation:
  assumes "f_name productForm = [] \<or> f_price productForm \<le> 0 \<or>
           f_category productForm = []"
  shows "handleProductSubmit uid productForm editingProduct s =
     ([ToastError
         (if trim (f_name productForm) = [] then ''Product name is required''
          else if f_price productForm \<le> 0 then ''Price must be greater than 0''
          else ''Category is required'')], s)"
  using assms by (auto simp: handleProductSubmit_def trim_Nil)

theorem handleProductSubmit_validation_witness:
  "handleProductSubmit (Some 1)
     \<lparr>f_name = ''Calzone'', f_description = [], f_price = 0, f_image_url = [],
      f_category = ''pizza'', f_is_featured = False\<rparr> None seed_store =
     ([ToastError ''Price must be greater than 0''], seed_store)
   \<and> handleProductSubmit (Some 1)
     \<lparr>f_name = [], f_description = [], f_price = 12, f_image_url = [],
      f_category = ''pizza'', f_is_featured = False\<rparr> (Some margherita) seed_store =
     ([ToastError ''Product name is required''], seed_store)"
  using handleProductSubmit_validation
          [of "\<lparr>f_name = ''Calzone'', f_description = [], f_price = 0,
                f_image_url = [], f_category = ''pizza'', f_is_featured = False\<rparr>"
              "Some 1" None seed_store]
        handleProductSubmit_validation
          [of "\<lparr>f_name = [], f_description = [], f_price = 12,
                f_image_url = [], f_category = ''pizza'', f_is_featured = False\<rparr>"
              "Some 1" "Some margherita" seed_store]
  by (simp add: trim_def is_space_def)

text \<open>
  C9. For an admin caller, setting an order's status to any of pending, preparing,
  ready and delivered succeeds whatever the status was before: afterwards the order
  with that id has the new status, and nothing else in the store has changed. A status
  outside these four is refused by the store for an existing order, and nothing
  changes.
\<close>

theorem handleUpdateOrderStatus_any_transition:
  assumes "is_admin s uid"
  shows "(newStatus \<in> set [''pending'', ''preparing'', ''ready'', ''delivered''] \<longrightarrow>
      handleUpdateOrderStatus uid orderId newStatus s =
        ([ToastSuccess ''Order status updated!''],
         s\<lparr>orders :=
             map (\<lambda>ord. if o_id ord = orderId then ord\<lparr>o_status := newStatus\<rparr> else ord)
               (orders s)\<rparr>))
   \<and> (newStatus \<notin> set [''pending'', ''preparing'', ''ready'', ''delivered''] \<and>
        list_ex (\<lambda>ord. o_id ord = orderId) (orders s) \<longrightarrow>
      handleUpdateOrderStatus uid orderId newStatus s =
        ([ToastStoreError CheckViolation], s))"
  using assms
  by (auto simp: handleUpdateOrderStatus_def update_order_status_def valid_status_def
        list_ex_iff filter_empty_conv)

theorem handleUpdateOrderStatus_any_transition_witness:
  "is_admin order_store (Some 1)
   \<and> handleUpdateOrderStatus (Some 1) 700 ''pending'' order_store =
       ([ToastSuccess ''Order status updated!''],
        seed_store\<lparr>orders :=
          [\<lparr>o_id = 700, o_user_id = 2, o_total_amount = 4297 / 100,
            o_status = ''pending''\<rparr>]\<rparr>)
   \<and> handleUpdateOrderStatus (Some 1) 700 ''cancelled'' order_store =
       ([ToastStoreError CheckViolation], order_store)"
proof -
  have adm: "is_admin order_store (Some 1)"
    by (simp add: is_admin_def sample_defs)
  from handleUpdateOrderStatus_any_transition [OF adm, of "''pending''" 700]
       handleUpdateOrderStatus_any_transition [OF adm, of "''cancelled''" 700]
       adm
  show ?thesis
    by (simp add: sample_defs)
qed

text \<open>
  C3. The handlers of the dashboard do not look at the caller's role. Called by someone
  who is not an admin in the profiles table, none of them changes the store, because the
  store's row-level policies refuse the insert and hide every row from the update and
  the delete. Only creating a product is answered with a refusal (the store's error:
  the policy violation, or the range error of a price the column does not take);
  updating a product, deleting a product and setting an order status are answered with
  their success message although no row was changed. What keeps such a caller away is
  the dashboard itself: for a missing profile or a profile whose role is not admin it
  renders the access-denied screen once the authentication state has loaded (the
  spinner before that) and never the panel with the controls.
\<close>

theorem handlers_without_admin_role:
  assumes "\<not> is_admin s uid"
  shows "snd (handleProductSubmit uid productForm editingProduct s) = s
   \<and> snd (handleDeleteProduct uid ident confirmed s) = s
   \<and> snd (handleUpdateOrderStatus uid orderId newStatus s) = s
   \<and> handleDeleteProduct uid ident True s =
       ([ToastSuccess ''Product deleted successfully!''], s)
   \<and> handleUpdateOrderStatus uid orderId newStatus s =
       ([ToastSuccess ''Order status updated!''], s)
   \<and> (trim (f_name productForm) \<noteq> [] \<and> 0 < f_price productForm \<and>
        trim (f_category productForm) \<noteq> [] \<longrightarrow>
        handleProductSubmit uid productForm (Some editing) s =
          ([ToastSuccess ''Product updated successfully!''], s) \<and>
        handleProductSubmit uid productForm None s =
          ([ToastStoreError
              (case numeric_10_2 (Fin (f_price productForm)) of
                 Inl error \<Rightarrow> error
               | Inr price \<Rightarrow> RowLevelSecurity)], s))
   \<and> ((case prof of None \<Rightarrow> True | Some p \<Rightarrow> pr_role p \<noteq> ''admin'') \<longrightarrow>
        AdminDashboard authLoading prof = (if authLoading then Spinner else AccessDenied))"
proof -
  have upd: "update_products s uid flt f = Inr s" for flt f
    using assms by (simp add: update_products_def)
  have del: "delete_products s uid flt = Inr s" for flt
    using assms by (simp add: delete_products_def)
  have st: "update_order_status s uid flt status = Inr s" for flt status
    using assms by (simp add: update_order_status_def)
  have ins: "insert_product s uid f =
      Inl (case numeric_10_2 (Fin (f_price f)) of
             Inl error \<Rightarrow> error
           | Inr price \<Rightarrow> RowLevelSecurity)" for f
    using assms by (simp add: insert_product_def split: sum.split)
  have price: "f_price (form_columns productForm) = f_price productForm"
    by (simp add: form_columns_def)
  show ?thesis
    by (auto simp: handleProductSubmit_def handleDeleteProduct_def
          handleUpdateOrderStatus_def upd del st ins price AdminDashboard_def
          split: option.splits)
qed

theorem handlers_without_admin_role_witness:
  "\<not> is_admin seed_store (Some 2)
   \<and> handleProductSubmit (Some 2)
       \<lparr>f_name = ''Calzone'', f_description = [], f_price = 12, f_image_url = [],
        f_category = ''pizza'', f_is_featured = False\<rparr> None seed_store =
       ([ToastStoreError RowLevelSecurity], seed_store)
   \<and> handleProductSubmit (Some 2)
       \<lparr>f_name = ''Calzone'', f_description = [], f_price = 12, f_image_url = [],
        f_category = ''pizza'', f_is_featured = False\<rparr> (Some margherita) seed_store =
       ([ToastSuccess ''Product updated successfully!''], seed_store)
   \<and> AdminDashboard False (Some customer_profile) = AccessDenied"
proof -
  have h: "\<not> is_admin seed_store (Some 2)"
    by (simp add: is_admin_def sample_defs)
  have ok: "numeric_10_2 (Fin 12) = Inr 12"
    by code_simp
  from handlers_without_admin_role
         [OF h,
          of "\<lparr>f_name = ''Calzone'', f_description = [], f_price = 12, f_image_url = [],
               f_category = ''pizza'', f_is_featured = False\<rparr>"
             None 0 False 0 "''ready''" margherita "Some customer_profile" False]
       h ok
  show ?thesis
    by (simp add: trim_def is_space_def customer_profile_def)
qed

text \<open>
  The claim as the specification words it, that every such call results in the forbidden
  answer, does not hold: the customer's call to delete the Margherita, and to set the
  status of an order, is answered with the success message; nothing was changed.
\<close>

theorem handlers_answer_non_admin_with_success:
  "handleDeleteProduct (Some 2) 11 True seed_store =
     ([ToastSuccess ''Product deleted successfully!''], seed_store)
   \<and> handleUpdateOrderStatus (Some 2) 700 ''ready'' order_store =
     ([ToastSuccess ''Order status updated!''], order_store)"
  by (simp add: handleDeleteProduct_def delete_products_def handleUpdateOrderStatus_def
        update_order_status_def is_admin_def sample_defs)

end
